theory Spec2Isabelle
  imports Complex_Main "HOL-Library.Char_ord" "HOL-Library.List_Lexorder" "HOL-Library.Multiset"
begin

section \<open>Values supplied by Go's runtime and libraries\<close>

text \<open>
  \<^verbatim>\<open>time.Time\<close>: the instant as seconds since the Unix epoch plus nanoseconds.
  \<^verbatim>\<open>time.Time{}\<close> is January 1 of year 1, which \<^verbatim>\<open>IsZero\<close> recognises and whose
  \<^verbatim>\<open>Unix()\<close> is -62135596800.
\<close>

datatype Time = Time (Unix: int) (Nanosecond: nat)

definition zeroTime :: Time where
  "zeroTime = Time (- 62135596800) 0"

definition IsZero :: "Time \<Rightarrow> bool" where
  "IsZero t = (t = zeroTime)"

text \<open>
  \<^verbatim>\<open>interface{}\<close> values that the program stores in a block payload. A Go
  \<^verbatim>\<open>map[string]interface{}\<close> is listed as its entries (in the order the literal names
  them); lookups go through \<open>map_of\<close>, and a \<^verbatim>\<open>nil\<close> map is the empty list. \<^verbatim>\<open>float64\<close>
  amounts are carried as exact rationals: no function below does arithmetic on them.
\<close>

datatype JValue =
    JNull
  | JBool bool
  | JInt int
  | JFloat rat
  | JString string
  | JTime Time
  | JArray "JValue list"
  | JMap "(string \<times> JValue) list"

text \<open>
  \<^verbatim>\<open>json.Marshal\<close> writes the keys of a map in sorted order, at every depth. The bytes it
  writes for the sorted tree, their SHA-256 and the hex encoding are the parameter \<open>H\<close> of
  \<open>calculateHash\<close> below.
\<close>

primrec jsonCanonical :: "JValue \<Rightarrow> JValue" where
  "jsonCanonical JNull = JNull"
| "jsonCanonical (JBool b) = JBool b"
| "jsonCanonical (JInt i) = JInt i"
| "jsonCanonical (JFloat r) = JFloat r"
| "jsonCanonical (JString s) = JString s"
| "jsonCanonical (JTime t) = JTime t"
| "jsonCanonical (JArray xs) = JArray (map jsonCanonical xs)"
| "jsonCanonical (JMap kvs) = JMap (sort_key fst (map (map_prod id jsonCanonical) kvs))"

text \<open>\<^verbatim>\<open>%d\<close> of \<^verbatim>\<open>fmt.Sprintf\<close>: the decimal digits of an integer.\<close>

definition digitChar :: "nat \<Rightarrow> char" where
  "digitChar d = char_of (48 + d)"

function decimal :: "nat \<Rightarrow> string" where
  "decimal n = (if n < 10 then [digitChar n] else decimal (n div 10) @ [digitChar (n mod 10)])"
  by pat_completeness auto
termination
  by (relation "measure id") auto

declare decimal.simps [simp del]

definition itoa :: "int \<Rightarrow> string" where
  "itoa i = (if i < 0 then CHR ''-'' # decimal (nat (- i)) else decimal (nat i))"

section \<open>Errors\<close>

text \<open>
  One constructor per \<^verbatim>\<open>errors.New\<close> / \<^verbatim>\<open>fmt.Errorf\<close> of the package, carrying the values the
  message is formatted from. \<open>RuntimePanic\<close> is Go's index-out-of-range panic.
\<close>

datatype error =
    ContractNotFound
  | StepMismatch int int
  | InvalidStepNumber
  | RoleMismatch string string
  | UnauthorizedRole
  | InvalidBlock
  | InvalidBlockReceived
  | AddBlockFailed error
  | WorkflowInitFailed error
  | EntityCodeRequired
  | EntityNameRequired
  | DescriptionRequired
  | AmountNotPositive
  | CreatorRequired
  | TransportError
  | JSONSyntaxError
  | RuntimePanic

section \<open>Data model\<close>

text \<open>
  Modelled from the spec: the types \<^verbatim>\<open>AdminRole\<close> and \<^verbatim>\<open>ContractStatus\<close>, the type of a
  step's status, and their constants are declared in a file of the package that is not among
  the sources. They are string types in Go (the server converts request strings with
  \<^verbatim>\<open>AdminRole(req.Role)\<close>, and \<^verbatim>\<open>getNextRole\<close> returns \<^verbatim>\<open>""\<close>); each constant is given the name
  the design document uses for it, and only their being pairwise different is ever used.
\<close>

type_synonym AdminRole = string
type_synonym ContractStatus = string
type_synonym ValidationStatus = string

definition RoleProjectDeveloper :: AdminRole where "RoleProjectDeveloper = ''ProjectDeveloper''"
definition RoleTechnicalCommission :: AdminRole where "RoleTechnicalCommission = ''TechnicalCommission''"
definition RoleLegalCommission :: AdminRole where "RoleLegalCommission = ''LegalCommission''"
definition RoleContractsChief :: AdminRole where "RoleContractsChief = ''ContractsChief''"
definition RoleAdminChief :: AdminRole where "RoleAdminChief = ''AdminChief''"
definition RoleBudgetAuthority :: AdminRole where "RoleBudgetAuthority = ''BudgetAuthority''"
definition RoleComptroller :: AdminRole where "RoleComptroller = ''Comptroller''"
definition RoleProsecutor :: AdminRole where "RoleProsecutor = ''Prosecutor''"
definition RoleCitizen :: AdminRole where "RoleCitizen = ''Citizen''"

definition StatusDraft :: ContractStatus where "StatusDraft = ''Draft''"
definition StatusTechnicalReview :: ContractStatus where "StatusTechnicalReview = ''TechnicalReview''"
definition StatusLegalReview :: ContractStatus where "StatusLegalReview = ''LegalReview''"
definition StatusContractsReview :: ContractStatus where "StatusContractsReview = ''ContractsReview''"
definition StatusAdminReview :: ContractStatus where "StatusAdminReview = ''AdminReview''"
definition StatusBudgetReview :: ContractStatus where "StatusBudgetReview = ''BudgetReview''"
definition StatusAuthorizedForPublication :: ContractStatus where
  "StatusAuthorizedForPublication = ''AuthorizedForPublication''"
definition StatusRejected :: ContractStatus where "StatusRejected = ''Rejected''"
definition StatusCompleted :: ContractStatus where "StatusCompleted = ''Completed''"

definition ValidationPending :: ValidationStatus where "ValidationPending = ''Pending''"
definition ValidationApproved :: ValidationStatus where "ValidationApproved = ''Approved''"
definition ValidationRejected :: ValidationStatus where "ValidationRejected = ''Rejected''"

text \<open>\<^verbatim>\<open>WorkflowStep\<close> of \<^verbatim>\<open>workflow.go\<close>.\<close>

record WorkflowStep =
  StepNumber :: int
  Role :: AdminRole
  Name :: string
  Required :: bool

text \<open>
  Modelled from the spec: \<^verbatim>\<open>ValidationStep\<close> is declared in the file that is not among the
  sources; its fields are those the design document lists, all of which \<^verbatim>\<open>workflow.go\<close> writes.
\<close>

record ValidationStep =
  StepNumber :: int
  Role :: AdminRole
  Status :: ValidationStatus
  Required :: bool
  ValidatorID :: string
  ValidatorName :: string
  Comments :: string
  Timestamp :: Time

text \<open>
  Modelled from the spec: \<^verbatim>\<open>AuditEntry\<close> is declared in the file that is not among the
  sources; its fields are those \<^verbatim>\<open>addAuditEntry\<close> fills.
\<close>

record AuditEntry =
  ID :: string
  Action :: string
  UserID :: string
  UserRole :: AdminRole
  Timestamp :: Time
  Description :: string
  IPAddress :: string

text \<open>\<^verbatim>\<open>WorkflowStatus\<close> of \<^verbatim>\<open>workflow.go\<close> and \<^verbatim>\<open>Peer\<close> of \<^verbatim>\<open>p2p.go\<close>.\<close>

record WorkflowStatus =
  ContractID :: string
  CurrentStep :: int
  TotalSteps :: int
  CompletedSteps :: int
  Status :: ContractStatus
  CanAdvance :: bool
  NextRole :: AdminRole

record Peer =
  ID :: string
  Address :: string
  Port :: string
  LastSeen :: Time
  Active :: bool

text \<open>
  Modelled from the spec: the \<^verbatim>\<open>Contract\<close> that \<^verbatim>\<open>workflow.go\<close> and \<^verbatim>\<open>blockchain.go\<close> work on
  is declared in the file that is not among the sources (the \<^verbatim>\<open>Contract\<close> next to \<^verbatim>\<open>Block\<close>
  in \<^verbatim>\<open>block.go\<close> has no workflow fields and is not the one they compile against). Its fields
  are those the design document lists; the two files read and write all but \<^verbatim>\<open>ContractType\<close>.
\<close>

record Contract =
  ID :: string
  EntityCode :: string
  EntityName :: string
  ContractType :: string
  Description :: string
  Amount :: rat
  Status :: ContractStatus
  CreatedBy :: string
  CreatedAt :: Time
  UpdatedAt :: Time
  CurrentStep :: int
  ValidationSteps :: "ValidationStep list"
  AuditTrail :: "AuditEntry list"

text \<open>\<^verbatim>\<open>Block\<close> of \<^verbatim>\<open>block.go\<close>; \<^verbatim>\<open>Blockchain\<close> of \<^verbatim>\<open>blockchain.go\<close>. The chain holds pointers to
  blocks that are never written after they are appended, so it is the list of the blocks; the
  registry is the map from contract id to the contract it points to.\<close>

record Block =
  Index :: int
  Timestamp :: Time
  Data :: "(string \<times> JValue) list"
  PreviousHash :: string
  Hash :: string
  Nonce :: int
  Type :: string

record Blockchain =
  Chain :: "Block list"
  Contracts :: "string \<rightharpoonup> Contract"

section \<open>Blocks: \<^verbatim>\<open>block.go\<close>\<close>

text \<open>
  \<^verbatim>\<open>calculateHash\<close>: the record of six keys, then \<^verbatim>\<open>json.Marshal\<close>, \<^verbatim>\<open>sha256.Sum256\<close> and
  \<^verbatim>\<open>hex.EncodeToString\<close>. The parameter \<open>H\<close> is the composition of the three on a tree whose
  keys are in the order \<^verbatim>\<open>json.Marshal\<close> writes them.
\<close>

definition hashRecord :: "Block \<Rightarrow> JValue" where
  "hashRecord b = JMap
     [(''index'', JInt (Index b)),
      (''timestamp'', JInt (Unix (Block.Timestamp b))),
      (''data'', JMap (Data b)),
      (''previous_hash'', JString (PreviousHash b)),
      (''nonce'', JInt (Nonce b)),
      (''type'', JString (Type b))]"

definition calculateHash :: "(JValue \<Rightarrow> string) \<Rightarrow> Block \<Rightarrow> string" where
  "calculateHash H b = H (jsonCanonical (hashRecord b))"

definition IsValid :: "(JValue \<Rightarrow> string) \<Rightarrow> Block \<Rightarrow> bool" where
  "IsValid H b = (Hash b = calculateHash H b)"

text \<open>\<^verbatim>\<open>NewBlock\<close>; \<open>now\<close> is what \<^verbatim>\<open>time.Now()\<close> returns. \<^verbatim>\<open>Type\<close> keeps Go's zero value.\<close>

definition NewBlock :: "(JValue \<Rightarrow> string) \<Rightarrow> (string \<times> JValue) list \<Rightarrow> string \<Rightarrow> Time \<Rightarrow> Block" where
  "NewBlock H data previousHash now =
     (let block = \<lparr>Index = 0, Timestamp = now, Data = data, PreviousHash = previousHash,
                   Hash = '''', Nonce = 0, Type = ''''\<rparr>
      in block\<lparr>Hash := calculateHash H block\<rparr>)"

section \<open>The chain: \<^verbatim>\<open>blockchain.go\<close>\<close>

text \<open>\<^verbatim>\<open>NewBlockchain\<close>, lines 20 to 27: the genesis block.\<close>

definition genesisBlock :: "(JValue \<Rightarrow> string) \<Rightarrow> Time \<Rightarrow> Block" where
  "genesisBlock H now =
     (let genesisBlock = \<lparr>Index = 0, Timestamp = now,
                          Data = [(''message'', JString ''SECOP Blockchain Genesis Block'')],
                          PreviousHash = '''', Hash = '''', Nonce = 0, Type = ''''\<rparr>
      in genesisBlock\<lparr>Hash := calculateHash H genesisBlock\<rparr>)"

definition NewBlockchain :: "(JValue \<Rightarrow> string) \<Rightarrow> Time \<Rightarrow> Blockchain" where
  "NewBlockchain H now = \<lparr>Chain = [genesisBlock H now], Contracts = Map.empty\<rparr>"

text \<open>\<^verbatim>\<open>IsChainValid\<close>: the loop starts at index 1.\<close>

function IsChainValid_loop :: "(JValue \<Rightarrow> string) \<Rightarrow> Block list \<Rightarrow> nat \<Rightarrow> bool" where
  "IsChainValid_loop H chain i =
     (if i < length chain then
        (let currentBlock = chain ! i; previousBlock = chain ! (i - 1) in
         if \<not> IsValid H currentBlock then False
         else if PreviousHash currentBlock \<noteq> Hash previousBlock then False
         else IsChainValid_loop H chain (i + 1))
      else True)"
  by pat_completeness auto
termination
  by (relation "measure (\<lambda>(H, chain, i). length chain - i)") auto

declare IsChainValid_loop.simps [simp del]

definition IsChainValid :: "(JValue \<Rightarrow> string) \<Rightarrow> Blockchain \<Rightarrow> bool" where
  "IsChainValid H bc = IsChainValid_loop H (Chain bc) 1"

text \<open>\<^verbatim>\<open>IsValidBlock\<close>: the tail is read only when the chain is not empty.\<close>

definition IsValidBlock :: "Blockchain \<Rightarrow> Block \<Rightarrow> bool" where
  "IsValidBlock bc block =
     (if Hash block = '''' then False
      else if IsZero (Block.Timestamp block) then False
      else if length (Chain bc) > 0 \<and> PreviousHash block \<noteq> Hash (last (Chain bc)) then False
      else True)"

fun HasBlock_loop :: "Block list \<Rightarrow> string \<Rightarrow> bool" where
  "HasBlock_loop [] hash = False"
| "HasBlock_loop (block # rest) hash = (if Hash block = hash then True else HasBlock_loop rest hash)"

definition HasBlock :: "Blockchain \<Rightarrow> string \<Rightarrow> bool" where
  "HasBlock bc hash = HasBlock_loop (Chain bc) hash"

text \<open>
  \<^verbatim>\<open>AddBlock\<close>, lines 243 to 252: the block it builds on the chain \<^verbatim>\<open>bc.Chain\<close>, which is not empty. The
  hash is computed last, over the index and the type just set.
\<close>

definition AddBlock_block ::
  "(JValue \<Rightarrow> string) \<Rightarrow> Block list \<Rightarrow> (string \<times> JValue) list \<Rightarrow> Time \<Rightarrow> Block" where
  "AddBlock_block H chain blockData now =
     (let block = NewBlock H blockData (Hash (last chain)) now;
          block = block\<lparr>Index := int (length chain)\<rparr>;
          block = (case map_of blockData ''type'' of
                     Some (JString blockType) \<Rightarrow> block\<lparr>Type := blockType\<rparr>
                   | _ \<Rightarrow> block)
      in block\<lparr>Hash := calculateHash H block\<rparr>)"

text \<open>
  \<^verbatim>\<open>AddBlock\<close>. \<^verbatim>\<open>getLatestBlock\<close> indexes \<^verbatim>\<open>bc.Chain[len(bc.Chain)-1]\<close> and panics on an empty
  chain. The result is the error (if any) and the blockchain afterwards.
\<close>

definition AddBlock ::
  "(JValue \<Rightarrow> string) \<Rightarrow> Blockchain \<Rightarrow> (string \<times> JValue) list \<Rightarrow> Time \<Rightarrow> error option \<times> Blockchain" where
  "AddBlock H bc blockData now =
     (if Chain bc = [] then (Some RuntimePanic, bc)
      else
        let block = AddBlock_block H (Chain bc) blockData now
        in if \<not> IsValidBlock bc block then (Some InvalidBlock, bc)
           else (None, bc\<lparr>Chain := Chain bc @ [block]\<rparr>))"

text \<open>\<^verbatim>\<open>IsValidChain\<close>: an empty chain is refused; then the \<^verbatim>\<open>range\<close> loop over the blocks.\<close>

function IsValidChain_loop :: "Block list \<Rightarrow> nat \<Rightarrow> bool" where
  "IsValidChain_loop chain i =
     (if i < length chain then
        (let block = chain ! i in
         if Hash block = '''' then False
         else if i > 0 \<and> PreviousHash block \<noteq> Hash (chain ! (i - 1)) then False
         else IsValidChain_loop chain (i + 1))
      else True)"
  by pat_completeness auto
termination
  by (relation "measure (\<lambda>(chain, i). length chain - i)") auto

declare IsValidChain_loop.simps [simp del]

definition IsValidChain :: "Block list \<Rightarrow> bool" where
  "IsValidChain chain = (if length chain = 0 then False else IsValidChain_loop chain 0)"

section \<open>The workflow: \<^verbatim>\<open>workflow.go\<close>\<close>

definition GetWorkflowSteps :: "WorkflowStep list" where
  "GetWorkflowSteps =
     [\<lparr>WorkflowStep.StepNumber = 1, WorkflowStep.Role = RoleProjectDeveloper,
       WorkflowStep.Name = ''Creaci'' @ [CHR 0xC3, CHR 0xB3] @ ''n del Proyecto'', WorkflowStep.Required = True\<rparr>,
      \<lparr>WorkflowStep.StepNumber = 2, WorkflowStep.Role = RoleTechnicalCommission,
       WorkflowStep.Name = ''Revisi'' @ [CHR 0xC3, CHR 0xB3] @ ''n T'' @ [CHR 0xC3, CHR 0xA9] @ ''cnica'',
       WorkflowStep.Required = True\<rparr>,
      \<lparr>WorkflowStep.StepNumber = 3, WorkflowStep.Role = RoleLegalCommission,
       WorkflowStep.Name = ''Revisi'' @ [CHR 0xC3, CHR 0xB3] @ ''n Jur'' @ [CHR 0xC3, CHR 0xAD] @ ''dica'',
       WorkflowStep.Required = True\<rparr>,
      \<lparr>WorkflowStep.StepNumber = 4, WorkflowStep.Role = RoleContractsChief,
       WorkflowStep.Name = ''Aprobaci'' @ [CHR 0xC3, CHR 0xB3] @ ''n Jefe de Contratos'', WorkflowStep.Required = True\<rparr>,
      \<lparr>WorkflowStep.StepNumber = 5, WorkflowStep.Role = RoleAdminChief,
       WorkflowStep.Name = ''Aprobaci'' @ [CHR 0xC3, CHR 0xB3] @ ''n Jefe Administrativo'', WorkflowStep.Required = True\<rparr>,
      \<lparr>WorkflowStep.StepNumber = 6, WorkflowStep.Role = RoleBudgetAuthority,
       WorkflowStep.Name = ''Autorizaci'' @ [CHR 0xC3, CHR 0xB3] @ ''n Ordenador del Gasto'', WorkflowStep.Required = True\<rparr>]"

text \<open>\<^verbatim>\<open>addAuditEntry\<close>; \<open>uid\<close> is the string of \<^verbatim>\<open>uuid.New()\<close>, \<open>now\<close> the clock.\<close>

definition addAuditEntry ::
  "Contract \<Rightarrow> string \<Rightarrow> string \<Rightarrow> AdminRole \<Rightarrow> string \<Rightarrow> string \<Rightarrow> Time \<Rightarrow> Contract" where
  "addAuditEntry contract action userID role description uid now =
     (let entry = \<lparr>AuditEntry.ID = uid, Action = action, UserID = userID, UserRole = role,
                   AuditEntry.Timestamp = now, AuditEntry.Description = description,
                   IPAddress = ''''\<rparr>
      in contract\<lparr>AuditTrail := AuditTrail contract @ [entry]\<rparr>)"

definition pendingStep :: "WorkflowStep \<Rightarrow> ValidationStep" where
  "pendingStep step =
     \<lparr>ValidationStep.StepNumber = WorkflowStep.StepNumber step,
      ValidationStep.Role = WorkflowStep.Role step,
      ValidationStep.Status = ValidationPending,
      ValidationStep.Required = WorkflowStep.Required step,
      ValidatorID = '''', ValidatorName = '''', Comments = '''',
      ValidationStep.Timestamp = zeroTime\<rparr>"

text \<open>\<^verbatim>\<open>InitializeContractWorkflow\<close>: it always returns \<^verbatim>\<open>nil\<close>.\<close>

definition InitializeContractWorkflow ::
  "Contract \<Rightarrow> Time \<Rightarrow> string \<Rightarrow> Time \<Rightarrow> error option \<times> Contract" where
  "InitializeContractWorkflow contract tUpdated uid tAudit =
     (let steps = GetWorkflowSteps;
          contract = contract\<lparr>ValidationSteps := map pendingStep steps\<rparr>;
          contract = contract\<lparr>CurrentStep := 1\<rparr>;
          contract = contract\<lparr>Status := StatusDraft\<rparr>;
          contract = contract\<lparr>UpdatedAt := tUpdated\<rparr>
      in (None, addAuditEntry contract ''WORKFLOW_INITIALIZED'' (CreatedBy contract)
                  RoleProjectDeveloper ''Flujo de trabajo inicializado'' uid tAudit))"

definition getStatusForStep :: "int \<Rightarrow> ContractStatus" where
  "getStatusForStep stepNumber =
     (if stepNumber = 1 then StatusDraft
      else if stepNumber = 2 then StatusTechnicalReview
      else if stepNumber = 3 then StatusLegalReview
      else if stepNumber = 4 then StatusContractsReview
      else if stepNumber = 5 then StatusAdminReview
      else if stepNumber = 6 then StatusBudgetReview
      else StatusAuthorizedForPublication)"

text \<open>
  \<^verbatim>\<open>ValidateStep\<close>, lines 90 to 115: the writes through \<^verbatim>\<open>step\<close> (a pointer into
  \<^verbatim>\<open>contract.ValidationSteps\<close>) and through \<^verbatim>\<open>contract\<close>. \<open>clk n\<close> is the \<open>n\<close>-th reading of
  \<^verbatim>\<open>time.Now()\<close> in the call and \<open>ids n\<close> the \<open>n\<close>-th \<^verbatim>\<open>uuid.New()\<close>. The second component
  counts the clock readings made so far.
\<close>

definition ValidateStep_update ::
  "Contract \<Rightarrow> int \<Rightarrow> string \<Rightarrow> string \<Rightarrow> AdminRole \<Rightarrow> bool \<Rightarrow> string \<Rightarrow>
   (nat \<Rightarrow> Time) \<Rightarrow> (nat \<Rightarrow> string) \<Rightarrow> Contract \<times> nat" where
  "ValidateStep_update contract stepNumber validatorID validatorName role approved comments clk ids =
     (let i = nat (stepNumber - 1);
          step = ValidationSteps contract ! i;
          step = step\<lparr>ValidatorID := validatorID\<rparr>;
          step = step\<lparr>ValidatorName := validatorName\<rparr>;
          step = step\<lparr>ValidationStep.Timestamp := clk 0\<rparr>;
          step = step\<lparr>Comments := comments\<rparr>
      in if approved then
           (let step = step\<lparr>ValidationStep.Status := ValidationApproved\<rparr>;
                contract = contract\<lparr>ValidationSteps := (ValidationSteps contract)[i := step]\<rparr>;
                contract = addAuditEntry contract ''STEP_APPROVED'' validatorID role
                             (''Paso '' @ itoa stepNumber @ '' aprobado: '' @ comments) (ids 0) (clk 1)
            in if stepNumber < int (length (ValidationSteps contract)) then
                 (let contract = contract\<lparr>CurrentStep := CurrentStep contract + 1\<rparr>;
                      contract = contract\<lparr>Status := getStatusForStep (CurrentStep contract)\<rparr>
                  in (contract\<lparr>UpdatedAt := clk 2\<rparr>, 3))
               else
                 (let contract = contract\<lparr>Status := StatusAuthorizedForPublication\<rparr>;
                      contract = addAuditEntry contract ''WORKFLOW_COMPLETED'' validatorID role
                                   (''Flujo de validaci'' @ [CHR 0xC3, CHR 0xB3] @ ''n completado'')
                                   (ids 1) (clk 2)
                  in (contract\<lparr>UpdatedAt := clk 3\<rparr>, 4)))
         else
           (let step = step\<lparr>ValidationStep.Status := ValidationRejected\<rparr>;
                contract = contract\<lparr>ValidationSteps := (ValidationSteps contract)[i := step]\<rparr>;
                contract = contract\<lparr>Status := StatusRejected\<rparr>;
                contract = addAuditEntry contract ''STEP_REJECTED'' validatorID role
                             (''Paso '' @ itoa stepNumber @ '' rechazado: '' @ comments) (ids 0) (clk 1)
            in (contract\<lparr>UpdatedAt := clk 2\<rparr>, 3)))"

text \<open>\<^verbatim>\<open>ValidateStep\<close>, lines 118 to 127: the payload of the block; \<open>now\<close> is the clock.\<close>

definition ValidateStep_blockData ::
  "string \<Rightarrow> int \<Rightarrow> string \<Rightarrow> AdminRole \<Rightarrow> bool \<Rightarrow> string \<Rightarrow> Time \<Rightarrow> (string \<times> JValue) list" where
  "ValidateStep_blockData contractID stepNumber validatorID role approved comments now =
     [(''type'', JString ''VALIDATION''),
      (''contract_id'', JString contractID),
      (''step'', JInt stepNumber),
      (''validator'', JString validatorID),
      (''role'', JString role),
      (''approved'', JBool approved),
      (''comments'', JString comments),
      (''timestamp'', JTime now)]"

text \<open>
  \<^verbatim>\<open>ValidateStep\<close>. The contract is reached through the pointer stored in the registry, so its
  writes are in the registry whatever \<^verbatim>\<open>AddBlock\<close> returns afterwards. Indexing
  \<^verbatim>\<open>ValidationSteps[stepNumber-1]\<close> with \<^verbatim>\<open>stepNumber\<close> below 1 panics.
\<close>

definition ValidateStep ::
  "(JValue \<Rightarrow> string) \<Rightarrow> Blockchain \<Rightarrow> string \<Rightarrow> int \<Rightarrow> string \<Rightarrow> string \<Rightarrow> AdminRole \<Rightarrow> bool \<Rightarrow> string \<Rightarrow>
   (nat \<Rightarrow> Time) \<Rightarrow> (nat \<Rightarrow> string) \<Rightarrow> error option \<times> Blockchain" where
  "ValidateStep H bc contractID stepNumber validatorID validatorName role approved comments clk ids =
     (case Contracts bc contractID of
        None \<Rightarrow> (Some ContractNotFound, bc)
      | Some contract \<Rightarrow>
          if stepNumber \<noteq> CurrentStep contract then
            (Some (StepMismatch (CurrentStep contract) stepNumber), bc)
          else if stepNumber > int (length (ValidationSteps contract)) then
            (Some InvalidStepNumber, bc)
          else if stepNumber - 1 < 0 then (Some RuntimePanic, bc)
          else if ValidationStep.Role (ValidationSteps contract ! nat (stepNumber - 1)) \<noteq> role then
            (Some (RoleMismatch
                     (ValidationStep.Role (ValidationSteps contract ! nat (stepNumber - 1))) role), bc)
          else
            (let (contract, n) = ValidateStep_update contract stepNumber validatorID validatorName
                                   role approved comments clk ids;
                 blockData = ValidateStep_blockData contractID stepNumber validatorID role approved
                               comments (clk n)
             in AddBlock H (bc\<lparr>Contracts := (Contracts bc)(contractID \<mapsto> contract)\<rparr>)
                  blockData (clk (n + 1))))"

definition AddAuditObservation_blockData ::
  "string \<Rightarrow> string \<Rightarrow> AdminRole \<Rightarrow> string \<Rightarrow> Time \<Rightarrow> (string \<times> JValue) list" where
  "AddAuditObservation_blockData contractID auditorID role observation now =
     [(''type'', JString ''AUDIT_OBSERVATION''),
      (''contract_id'', JString contractID),
      (''auditor'', JString auditorID),
      (''role'', JString role),
      (''observation'', JString observation),
      (''timestamp'', JTime now)]"

definition AddAuditObservation ::
  "(JValue \<Rightarrow> string) \<Rightarrow> Blockchain \<Rightarrow> string \<Rightarrow> string \<Rightarrow> AdminRole \<Rightarrow> string \<Rightarrow>
   (nat \<Rightarrow> Time) \<Rightarrow> (nat \<Rightarrow> string) \<Rightarrow> error option \<times> Blockchain" where
  "AddAuditObservation H bc contractID auditorID role observation clk ids =
     (case Contracts bc contractID of
        None \<Rightarrow> (Some ContractNotFound, bc)
      | Some contract \<Rightarrow>
          if role \<noteq> RoleComptroller \<and> role \<noteq> RoleProsecutor \<and> role \<noteq> RoleCitizen then
            (Some UnauthorizedRole, bc)
          else
            (let contract = addAuditEntry contract ''AUDIT_OBSERVATION'' auditorID role observation
                              (ids 0) (clk 0);
                 blockData = AddAuditObservation_blockData contractID auditorID role observation
                               (clk 1)
             in AddBlock H (bc\<lparr>Contracts := (Contracts bc)(contractID \<mapsto> contract)\<rparr>)
                  blockData (clk 2)))"

text \<open>\<^verbatim>\<open>getNextRole\<close>; the index \<^verbatim>\<open>CurrentStep-1\<close> panics when it is negative.\<close>

definition getNextRole :: "Contract \<Rightarrow> error + AdminRole" where
  "getNextRole contract =
     (if CurrentStep contract \<le> int (length (ValidationSteps contract)) then
        (if CurrentStep contract - 1 < 0 then Inl RuntimePanic
         else Inr (ValidationStep.Role (ValidationSteps contract ! nat (CurrentStep contract - 1))))
      else Inr '''')"

fun countApproved :: "ValidationStep list \<Rightarrow> int \<Rightarrow> int" where
  "countApproved [] completedSteps = completedSteps"
| "countApproved (step # rest) completedSteps =
     countApproved rest
       (if ValidationStep.Status step = ValidationApproved then completedSteps + 1 else completedSteps)"

definition GetContractWorkflowStatus :: "Blockchain \<Rightarrow> string \<Rightarrow> error + WorkflowStatus" where
  "GetContractWorkflowStatus bc contractID =
     (case Contracts bc contractID of
        None \<Rightarrow> Inl ContractNotFound
      | Some contract \<Rightarrow>
          (let completedSteps = countApproved (ValidationSteps contract) 0 in
           case getNextRole contract of
             Inl e \<Rightarrow> Inl e
           | Inr nextRole \<Rightarrow>
               Inr \<lparr>ContractID = contractID,
                    WorkflowStatus.CurrentStep = Contract.CurrentStep contract,
                    TotalSteps = int (length (ValidationSteps contract)),
                    CompletedSteps = completedSteps,
                    WorkflowStatus.Status = Contract.Status contract,
                    CanAdvance = (Contract.Status contract \<noteq> StatusRejected
                                  \<and> Contract.Status contract \<noteq> StatusCompleted),
                    NextRole = nextRole\<rparr>))"

section \<open>Creating a contract: \<^verbatim>\<open>blockchain.go\<close>\<close>

definition validateContract :: "Contract \<Rightarrow> error option" where
  "validateContract contract =
     (if EntityCode contract = '''' then Some EntityCodeRequired
      else if EntityName contract = '''' then Some EntityNameRequired
      else if Contract.Description contract = '''' then Some DescriptionRequired
      else if Amount contract \<le> 0 then Some AmountNotPositive
      else if CreatedBy contract = '''' then Some CreatorRequired
      else None)"

text \<open>
  \<^verbatim>\<open>AddContract\<close>, lines 47 to 60: the contract as it is stored. The first \<^verbatim>\<open>uuid.New()\<close> is
  read only when the contract has no id, so the audit entry of the initialisation gets the
  next one.
\<close>

definition AddContract_init ::
  "Contract \<Rightarrow> (nat \<Rightarrow> Time) \<Rightarrow> (nat \<Rightarrow> string) \<Rightarrow> error option \<times> Contract" where
  "AddContract_init contract clk ids =
     (let k = (if Contract.ID contract = '''' then 1 else 0);
          contract = (if Contract.ID contract = '''' then contract\<lparr>Contract.ID := ids 0\<rparr>
                      else contract);
          contract = contract\<lparr>CreatedAt := clk 0\<rparr>;
          contract = contract\<lparr>UpdatedAt := clk 1\<rparr>;
          contract = contract\<lparr>Contract.Status := StatusDraft\<rparr>
      in InitializeContractWorkflow contract (clk 2) (ids k) (clk 3))"

text \<open>\<^verbatim>\<open>AddContract\<close>, lines 66 to 74: the payload of the block.\<close>

definition AddContract_blockData :: "Contract \<Rightarrow> (string \<times> JValue) list" where
  "AddContract_blockData contract =
     [(''type'', JString ''CONTRACT_CREATION''),
      (''contract_id'', JString (Contract.ID contract)),
      (''entity_code'', JString (EntityCode contract)),
      (''entity_name'', JString (EntityName contract)),
      (''amount'', JFloat (Amount contract)),
      (''created_by'', JString (CreatedBy contract)),
      (''timestamp'', JTime (CreatedAt contract))]"

definition AddContract ::
  "(JValue \<Rightarrow> string) \<Rightarrow> Blockchain \<Rightarrow> Contract \<Rightarrow> (nat \<Rightarrow> Time) \<Rightarrow> (nat \<Rightarrow> string) \<Rightarrow>
   error option \<times> Blockchain" where
  "AddContract H bc contract clk ids =
     (case validateContract contract of
        Some err \<Rightarrow> (Some err, bc)
      | None \<Rightarrow>
          (case AddContract_init contract clk ids of
             (Some err, contract) \<Rightarrow> (Some (WorkflowInitFailed err), bc)
           | (None, contract) \<Rightarrow>
               (let bc = bc\<lparr>Contracts := (Contracts bc)(Contract.ID contract \<mapsto> contract)\<rparr>
                in AddBlock H bc (AddContract_blockData contract) (clk 4))))"

section \<open>Peers and synchronisation: \<^verbatim>\<open>p2p.go\<close>\<close>

text \<open>
  \<^verbatim>\<open>P2PNetwork\<close>. \<^verbatim>\<open>Peers\<close> is a Go map; it is listed in the order in which the \<^verbatim>\<open>range\<close>
  loop of the call at hand visits it.
\<close>

record P2PNetwork =
  NodeID :: string
  Address :: string
  Port :: string
  Peers :: "(string \<times> Peer) list"
  Blockchain :: Blockchain

text \<open>\<^verbatim>\<open>ReceiveBlock\<close>, lines 121 to 127: the payload handed to \<^verbatim>\<open>AddBlock\<close>.\<close>

definition ReceiveBlock_blockData :: "Block \<Rightarrow> (string \<times> JValue) list" where
  "ReceiveBlock_blockData block =
     [(''type'', JString (Type block)),
      (''data'', JMap (Data block)),
      (''timestamp'', JTime (Block.Timestamp block)),
      (''previous_hash'', JString (PreviousHash block)),
      (''nonce'', JInt (Nonce block))]"

text \<open>\<^verbatim>\<open>ReceiveBlock\<close>; \<open>now\<close> is the clock reading inside \<^verbatim>\<open>NewBlock\<close>. A panic of
  \<^verbatim>\<open>AddBlock\<close> is not an error value and is not wrapped.\<close>

definition ReceiveBlock ::
  "(JValue \<Rightarrow> string) \<Rightarrow> P2PNetwork \<Rightarrow> Block \<Rightarrow> Time \<Rightarrow> error option \<times> P2PNetwork" where
  "ReceiveBlock H p2p block now =
     (if \<not> IsValidBlock (Blockchain p2p) block then (Some InvalidBlockReceived, p2p)
      else if HasBlock (Blockchain p2p) (Hash block) then (None, p2p)
      else
        (case AddBlock H (Blockchain p2p) (ReceiveBlock_blockData block) now of
           (None, bc) \<Rightarrow> (None, p2p\<lparr>Blockchain := bc\<rparr>)
         | (Some RuntimePanic, bc) \<Rightarrow> (Some RuntimePanic, p2p\<lparr>Blockchain := bc\<rparr>)
         | (Some err, bc) \<Rightarrow> (Some (AddBlockFailed err), p2p\<lparr>Blockchain := bc\<rparr>)))"

text \<open>
  \<^verbatim>\<open>fmt.Sprintf("%v", block.Data)\<close> prints a map as \<^verbatim>\<open>map[k1:v1 k2:v2]\<close>, keys sorted;
  \<open>fmtV\<close> is what \<^verbatim>\<open>%v\<close> prints for a value.
\<close>

fun joinSpace :: "string list \<Rightarrow> string" where
  "joinSpace [] = []"
| "joinSpace [s] = s"
| "joinSpace (s # rest) = s @ '' '' @ joinSpace rest"

definition fmtSprintfV :: "(JValue \<Rightarrow> string) \<Rightarrow> (string \<times> JValue) list \<Rightarrow> string" where
  "fmtSprintfV fmtV d =
     ''map['' @ joinSpace (map (\<lambda>(k, v). k @ '':'' @ fmtV v) (sort_key fst d)) @ '']''"

text \<open>
  \<^verbatim>\<open>json.Unmarshal\<close> first scans its input: after white space, the first byte has to begin a
  JSON value (an object, an array, a string, a number or one of the three literals), or the call
  returns a syntax error. \<open>decode\<close> is the rest of the decoder, run on an input that passed
  this first test.
\<close>

definition isSpace :: "char \<Rightarrow> bool" where
  "isSpace c = (c = CHR '' '' \<or> c = CHR 0x09 \<or> c = CHR 0x0D \<or> c = CHR 0x0A)"

definition beginsValue :: "char \<Rightarrow> bool" where
  "beginsValue c = (c \<in> set ''{[-0123456789tfn'' \<or> c = CHR 0x22)"

definition jsonUnmarshal :: "(string \<Rightarrow> error + Contract) \<Rightarrow> string \<Rightarrow> error + Contract" where
  "jsonUnmarshal decode input =
     (case dropWhile isSpace input of
        [] \<Rightarrow> Inl JSONSyntaxError
      | c # rest \<Rightarrow> if beginsValue c then decode input else Inl JSONSyntaxError)"

text \<open>\<^verbatim>\<open>rebuildContractsFromChain\<close>: the registry is emptied, then the loop over the chain.\<close>

fun rebuildContracts_loop ::
  "(JValue \<Rightarrow> string) \<Rightarrow> (string \<Rightarrow> error + Contract) \<Rightarrow> Block list \<Rightarrow>
   (string \<rightharpoonup> Contract) \<Rightarrow> (string \<rightharpoonup> Contract)" where
  "rebuildContracts_loop fmtV decode [] contracts = contracts"
| "rebuildContracts_loop fmtV decode (block # rest) contracts =
     rebuildContracts_loop fmtV decode rest
       (if Type block = ''CONTRACT_CREATION'' then
          (case jsonUnmarshal decode (fmtSprintfV fmtV (Data block)) of
             Inr contract \<Rightarrow> contracts(Contract.ID contract \<mapsto> contract)
           | Inl err \<Rightarrow> contracts)
        else contracts)"

definition rebuildContractsFromChain ::
  "(JValue \<Rightarrow> string) \<Rightarrow> (string \<Rightarrow> error + Contract) \<Rightarrow> P2PNetwork \<Rightarrow> P2PNetwork" where
  "rebuildContractsFromChain fmtV decode p2p =
     p2p\<lparr>Blockchain := (Blockchain p2p)
            \<lparr>Contracts := rebuildContracts_loop fmtV decode (Chain (Blockchain p2p)) Map.empty\<rparr>\<rparr>"

text \<open>
  \<^verbatim>\<open>SyncWithPeers\<close>, lines 157 to 166: what the loop does with the chain one peer returned.
\<close>

definition SyncWithPeers_adopt ::
  "(JValue \<Rightarrow> string) \<Rightarrow> (string \<Rightarrow> error + Contract) \<Rightarrow> P2PNetwork \<Rightarrow> Block list \<Rightarrow> P2PNetwork" where
  "SyncWithPeers_adopt fmtV decode p2p chain =
     (if length chain > length (Chain (Blockchain p2p)) \<and> IsValidChain chain then
        rebuildContractsFromChain fmtV decode
          (p2p\<lparr>Blockchain := (Blockchain p2p)\<lparr>Chain := chain\<rparr>\<rparr>)
      else p2p)"

text \<open>
  \<^verbatim>\<open>SyncWithPeers\<close>; \<open>request\<close> is \<^verbatim>\<open>requestChainFromPeer\<close>, the HTTP exchange with the peer.
  The call always returns \<^verbatim>\<open>nil\<close>.
\<close>

fun SyncWithPeers_loop ::
  "(Peer \<Rightarrow> error + Block list) \<Rightarrow> (JValue \<Rightarrow> string) \<Rightarrow> (string \<Rightarrow> error + Contract) \<Rightarrow>
   (string \<times> Peer) list \<Rightarrow> P2PNetwork \<Rightarrow> P2PNetwork" where
  "SyncWithPeers_loop request fmtV decode [] p2p = p2p"
| "SyncWithPeers_loop request fmtV decode ((peerID, peer) # rest) p2p =
     SyncWithPeers_loop request fmtV decode rest
       (if \<not> Active peer then p2p
        else case request peer of
               Inl err \<Rightarrow> p2p
             | Inr chain \<Rightarrow> SyncWithPeers_adopt fmtV decode p2p chain)"

definition SyncWithPeers ::
  "(Peer \<Rightarrow> error + Block list) \<Rightarrow> (JValue \<Rightarrow> string) \<Rightarrow> (string \<Rightarrow> error + Contract) \<Rightarrow>
   P2PNetwork \<Rightarrow> error option \<times> P2PNetwork" where
  "SyncWithPeers request fmtV decode p2p =
     (None, SyncWithPeers_loop request fmtV decode (Peers p2p) p2p)"

section \<open>An instance of the hash parameter for the examples\<close>

text \<open>
  The examples below need a concrete \<open>H\<close>. \<open>exampleDigest\<close> writes the value out in full
  behind a fixed prefix, so that two blocks of an example that differ in a hashed field get
  different digests, as they do under SHA-256. No theorem about the program depends on it.
\<close>

primrec exampleText :: "JValue \<Rightarrow> string" where
  "exampleText JNull = ''null''"
| "exampleText (JBool b) = (if b then ''true'' else ''false'')"
| "exampleText (JInt i) = itoa i"
| "exampleText (JFloat r) = itoa (fst (quotient_of r)) @ ''/'' @ itoa (snd (quotient_of r))"
| "exampleText (JString s) = [CHR 0x22] @ s @ [CHR 0x22]"
| "exampleText (JTime t) = itoa (Unix t) @ ''.'' @ decimal (Nanosecond t)"
| "exampleText (JArray xs) = ''['' @ concat (map (\<lambda>s. s @ '','') (map exampleText xs)) @ '']''"
| "exampleText (JMap kvs) =
     ''{'' @ concat (map (\<lambda>(k, s). k @ '':'' @ s @ '','') (map (map_prod id exampleText) kvs)) @ ''}''"

definition exampleDigest :: "JValue \<Rightarrow> string" where
  "exampleDigest v = ''sha256:'' @ exampleText v"

section \<open>Concrete inputs for the examples\<close>

definition exampleClock :: "nat \<Rightarrow> Time" where
  "exampleClock n = Time (1000 + int n) 0"

definition exampleIds :: "nat \<Rightarrow> string" where
  "exampleIds n = ''uuid-'' @ decimal n"

text \<open>A contract as the server decodes it from a creation request.\<close>

definition exampleContract :: Contract where
  "exampleContract =
     \<lparr>Contract.ID = ''c-1'', EntityCode = ''08001'', EntityName = ''Alcaldia de Medellin'',
      ContractType = ''OBRA_PUBLICA'', Contract.Description = ''Puente peatonal en la Comuna 1'',
      Amount = 2500000000, Contract.Status = '''', CreatedBy = ''dev-1'',
      CreatedAt = zeroTime, UpdatedAt = zeroTime, Contract.CurrentStep = 0,
      ValidationSteps = [], AuditTrail = []\<rparr>"

text \<open>A decoder that accepts whatever it is given.\<close>

definition exampleDecode :: "string \<Rightarrow> error + Contract" where
  "exampleDecode input = Inr exampleContract"

text \<open>The ledger of a node that started and then created \<open>exampleContract\<close>.\<close>

definition peerLedger :: Blockchain where
  "peerLedger =
     snd (AddContract exampleDigest (NewBlockchain exampleDigest (Time 900 0))
            exampleContract exampleClock exampleIds)"

text \<open>Another node, which has only its own genesis block and knows the first as a peer.\<close>

definition exampleNode :: P2PNetwork where
  "exampleNode =
     \<lparr>NodeID = ''DNP-NODE'', P2PNetwork.Address = ''localhost'', P2PNetwork.Port = ''8080'',
      Peers = [(''NODE1'', \<lparr>Peer.ID = ''NODE1'', Peer.Address = ''localhost'', Peer.Port = ''8081'',
                            LastSeen = Time 940 0, Active = True\<rparr>)],
      Blockchain = NewBlockchain exampleDigest (Time 950 0)\<rparr>"

text \<open>A chain whose links fit but whose stored hashes are not the hashes of the blocks.\<close>

definition forgedChain :: "Block list" where
  "forgedChain =
     [\<lparr>Index = 0, Timestamp = Time 1 0, Data = [], PreviousHash = '''', Hash = ''aa'',
       Nonce = 0, Type = ''''\<rparr>,
      \<lparr>Index = 1, Timestamp = Time 2 0, Data = [(''type'', JString ''VALIDATION'')],
       PreviousHash = ''aa'', Hash = ''bb'', Nonce = 0, Type = ''VALIDATION''\<rparr>]"

text \<open>The same ledger after the project developer approved step 1.\<close>

definition peerLedger2 :: Blockchain where
  "peerLedger2 =
     snd (ValidateStep exampleDigest peerLedger ''c-1'' 1 ''dev-1'' ''Developer''
            RoleProjectDeveloper True ''ok'' exampleClock exampleIds)"

text \<open>The first ledger with the payload of its genesis block rewritten, hash left as it was.\<close>

definition tamperedLedger :: Blockchain where
  "tamperedLedger =
     peerLedger\<lparr>Chain := (Chain peerLedger)
        [0 := (Chain peerLedger ! 0)\<lparr>Data := [(''message'', JString ''forged'')]\<rparr>]\<rparr>"

text \<open>The second ledger with the payload of its second block rewritten, hash left as it was.\<close>

definition tamperedLedger2 :: Blockchain where
  "tamperedLedger2 =
     peerLedger2\<lparr>Chain := (Chain peerLedger2)
        [1 := (Chain peerLedger2 ! 1)\<lparr>Data := [(''type'', JString ''CONTRACT_CREATION''),
                                                   (''contract_id'', JString ''c-2'')]\<rparr>]\<rparr>"

section \<open>The full approval path\<close>

text \<open>
  What a caller does who approves the steps 1 to \<open>k\<close> of contract \<open>cid\<close> in order, each with
  the role the template fixes for it: the ledger after these \<open>k\<close> calls of \<open>ValidateStep\<close>. The
  \<open>j\<close>-th call (counted from 0) is made by validator \<open>vids j\<close> with the comment \<open>comments j\<close> and
  reads the clock \<open>clks j\<close> and the identifiers \<open>idss j\<close>.
\<close>

primrec approveThrough ::
  "(JValue \<Rightarrow> string) \<Rightarrow> Blockchain \<Rightarrow> string \<Rightarrow> (nat \<Rightarrow> string) \<Rightarrow> (nat \<Rightarrow> string) \<Rightarrow>
   (nat \<Rightarrow> string) \<Rightarrow> (nat \<Rightarrow> nat \<Rightarrow> Time) \<Rightarrow> (nat \<Rightarrow> nat \<Rightarrow> string) \<Rightarrow> nat \<Rightarrow> Blockchain" where
  "approveThrough H bc cid vids vnames comments clks idss 0 = bc"
| "approveThrough H bc cid vids vnames comments clks idss (Suc k) =
     snd (ValidateStep H (approveThrough H bc cid vids vnames comments clks idss k) cid
            (int (Suc k)) (vids k) (vnames k) (WorkflowStep.Role (GetWorkflowSteps ! k)) True
            (comments k) (clks k) (idss k))"

text \<open>The statuses the design document lists for the path, after the approvals 1 to 6.\<close>

definition statusAfterApproval :: "ContractStatus list" where
  "statusAfterApproval =
     [StatusTechnicalReview, StatusLegalReview, StatusContractsReview, StatusAdminReview,
      StatusBudgetReview, StatusAuthorizedForPublication]"

text \<open>
  The state of contract \<open>cid\<close> in a ledger after the steps 1 to \<open>k\<close> of the template were
  approved and nothing else happened to it: the chain is not empty, the contract has the six
  steps of the template with its roles, the first \<open>k\<close> approved and the others pending, and
  its current step is the next one, or the sixth when all are approved.
\<close>

definition approvedUpTo :: "Blockchain \<Rightarrow> string \<Rightarrow> nat \<Rightarrow> bool" where
  "approvedUpTo bc cid k =
     (Chain bc \<noteq> [] \<and>
      (case Contracts bc cid of
         None \<Rightarrow> False
       | Some c \<Rightarrow>
           Contract.CurrentStep c = int (min (Suc k) 6)
           \<and> map ValidationStep.Role (ValidationSteps c) = map WorkflowStep.Role GetWorkflowSteps
           \<and> (\<forall>i<6. ValidationStep.Status (ValidationSteps c ! i)
                        = (if i < k then ValidationApproved else ValidationPending))))"

text \<open>The first ledger after the steps 1 to \<open>k\<close> of contract \<open>c-1\<close> were approved.\<close>

definition exampleRun :: "nat \<Rightarrow> Blockchain" where
  "exampleRun k =
     approveThrough exampleDigest peerLedger ''c-1'' exampleIds exampleIds exampleIds
       (\<lambda>j. exampleClock) (\<lambda>j. exampleIds) k"

text \<open>The first ledger after the project developer rejected step 1 of contract \<open>c-1\<close>.\<close>

definition rejectedLedger :: Blockchain where
  "rejectedLedger =
     snd (ValidateStep exampleDigest peerLedger ''c-1'' 1 ''dev-1'' ''Developer''
            RoleProjectDeveloper False ''not ready'' exampleClock exampleIds)"

text \<open>
  A node that holds the genesis block of the first ledger (it adopted that chain when it had
  one block), and the block the first ledger's node appended and broadcast afterwards.
\<close>

definition syncedNode :: P2PNetwork where
  "syncedNode = exampleNode\<lparr>Blockchain := NewBlockchain exampleDigest (Time 900 0)\<rparr>"

definition broadcastBlock :: Block where
  "broadcastBlock = Chain peerLedger ! 1"

text \<open>
  The audit entries the design document names for an approval: \<^verbatim>\<open>STEP_APPROVED\<close> for the step,
  and \<^verbatim>\<open>WORKFLOW_COMPLETED\<close> after the last one, with the identifier and the time they are given.
\<close>

definition approvalEntry ::
  "int \<Rightarrow> string \<Rightarrow> AdminRole \<Rightarrow> string \<Rightarrow> string \<Rightarrow> Time \<Rightarrow> AuditEntry" where
  "approvalEntry stepNumber validatorID role comments uid now =
     \<lparr>AuditEntry.ID = uid, Action = ''STEP_APPROVED'', UserID = validatorID, UserRole = role,
      AuditEntry.Timestamp = now,
      AuditEntry.Description = ''Paso '' @ itoa stepNumber @ '' aprobado: '' @ comments,
      IPAddress = ''''\<rparr>"

definition completionEntry :: "string \<Rightarrow> AdminRole \<Rightarrow> string \<Rightarrow> Time \<Rightarrow> AuditEntry" where
  "completionEntry validatorID role uid now =
     \<lparr>AuditEntry.ID = uid, Action = ''WORKFLOW_COMPLETED'', UserID = validatorID, UserRole = role,
      AuditEntry.Timestamp = now,
      AuditEntry.Description = ''Flujo de validaci'' @ [CHR 0xC3, CHR 0xB3] @ ''n completado'',
      IPAddress = ''''\<rparr>"

text \<open>
  A chain longer than \<open>peerLedger\<close>'s whose third block does not name the hash of the second.
\<close>

definition brokenChain :: "Block list" where
  "brokenChain =
     forgedChain @
     [\<lparr>Index = 2, Timestamp = Time 3 0, Data = [(''type'', JString ''VALIDATION'')],
       PreviousHash = ''zz'', Hash = ''cc'', Nonce = 0, Type = ''VALIDATION''\<rparr>]"

text \<open>
  A node with five peers, and what each of them answers: the first a chain of two blocks, the
  second a chain that is not longer, the third a longer chain with a broken link, the fourth
  nothing (the exchange fails); the fifth is inactive and is not asked.
\<close>

definition examplePeer :: "string \<Rightarrow> string \<Rightarrow> bool \<Rightarrow> string \<times> Peer" where
  "examplePeer name port active =
     (name, \<lparr>Peer.ID = name, Peer.Address = ''localhost'', Peer.Port = port,
             LastSeen = Time 940 0, Active = active\<rparr>)"

definition meshNode :: P2PNetwork where
  "meshNode =
     exampleNode\<lparr>Peers := [examplePeer ''NODE1'' ''8081'' True, examplePeer ''NODE2'' ''8082'' True,
                           examplePeer ''NODE3'' ''8083'' True, examplePeer ''NODE4'' ''8084'' True,
                           examplePeer ''NODE5'' ''8085'' False]\<rparr>"

definition exampleRequest :: "Peer \<Rightarrow> error + Block list" where
  "exampleRequest peer =
     (if Peer.ID peer = ''NODE1'' then Inr (Chain peerLedger)
      else if Peer.ID peer = ''NODE2'' then Inr forgedChain
      else if Peer.ID peer = ''NODE3'' then Inr brokenChain
      else if Peer.ID peer = ''NODE4'' then Inl TransportError
      else Inr brokenChain)"

section \<open>Facts about the chain layer\<close>

lemma calculateHash_Hash_update [simp]:
  "calculateHash H (b\<lparr>Hash := h\<rparr>) = calculateHash H b"
  by (simp add: calculateHash_def hashRecord_def)

lemma IsValid_Hash_update [simp]:
  "IsValid H (b\<lparr>Hash := calculateHash H b\<rparr>)"
  by (simp add: IsValid_def)

lemma AddBlock_block_Hash:
  "Hash (AddBlock_block H ch d now) = calculateHash H (AddBlock_block H ch d now)"
  by (simp add: AddBlock_block_def Let_def)

lemma AddBlock_block_IsValid: "IsValid H (AddBlock_block H ch d now)"
  by (simp add: AddBlock_block_def Let_def)

lemma AddBlock_block_PreviousHash [simp]:
  "PreviousHash (AddBlock_block H ch d now) = Hash (last ch)"
  by (simp add: AddBlock_block_def NewBlock_def Let_def split: option.split JValue.split)

lemma AddBlock_block_Timestamp [simp]:
  "Block.Timestamp (AddBlock_block H ch d now) = now"
  by (simp add: AddBlock_block_def NewBlock_def Let_def split: option.split JValue.split)

lemma AddBlock_block_Index [simp]:
  "Index (AddBlock_block H ch d now) = int (length ch)"
  by (simp add: AddBlock_block_def NewBlock_def Let_def split: option.split JValue.split)

lemma AddBlock_block_Data [simp]:
  "Data (AddBlock_block H ch d now) = d"
  by (simp add: AddBlock_block_def NewBlock_def Let_def split: option.split JValue.split)

lemma AddBlock_block_Nonce [simp]:
  "Nonce (AddBlock_block H ch d now) = 0"
  by (simp add: AddBlock_block_def NewBlock_def Let_def split: option.split JValue.split)

lemma AddBlock_block_Type:
  "Type (AddBlock_block H ch d now) =
     (case map_of d ''type'' of Some (JString blockType) \<Rightarrow> blockType | _ \<Rightarrow> '''')"
  by (simp add: AddBlock_block_def NewBlock_def Let_def split: option.split JValue.split)

lemma AddBlock_Chain_empty:
  "Chain bc = [] \<Longrightarrow> AddBlock H bc d now = (Some RuntimePanic, bc)"
  by (simp add: AddBlock_def)

lemma AddBlock_ok:
  assumes "Chain bc \<noteq> []" and "\<forall>v. H v \<noteq> ''''" and "\<not> IsZero now"
  shows "AddBlock H bc d now = (None, bc\<lparr>Chain := Chain bc @ [AddBlock_block H (Chain bc) d now]\<rparr>)"
proof -
  have "Hash (AddBlock_block H (Chain bc) d now) \<noteq> ''''"
    using assms(2) by (simp add: AddBlock_block_Hash calculateHash_def)
  then have "IsValidBlock bc (AddBlock_block H (Chain bc) d now)"
    using assms(3) by (simp add: IsValidBlock_def)
  then show ?thesis using assms(1) by (simp add: AddBlock_def Let_def)
qed

lemma AddBlock_cases:
  "AddBlock H bc d now = (None, bc\<lparr>Chain := Chain bc @ [AddBlock_block H (Chain bc) d now]\<rparr>)
   \<or> AddBlock H bc d now = (Some InvalidBlock, bc)
   \<or> AddBlock H bc d now = (Some RuntimePanic, bc)"
  by (simp add: AddBlock_def Let_def)

lemma IsChainValid_loop_iff:
  "IsChainValid_loop H chain i \<longleftrightarrow>
     (\<forall>j. i \<le> j \<and> j < length chain \<longrightarrow>
        IsValid H (chain ! j) \<and> PreviousHash (chain ! j) = Hash (chain ! (j - 1)))"
proof (induction H chain i rule: IsChainValid_loop.induct)
  case (1 H chain i)
  let ?ok = "\<lambda>j. IsValid H (chain ! j) \<and> PreviousHash (chain ! j) = Hash (chain ! (j - 1))"
  show ?case
  proof (cases "i < length chain")
    case False
    then show ?thesis by (subst IsChainValid_loop.simps) auto
  next
    case True
    show ?thesis
    proof (cases "?ok i")
      case False
      with True show ?thesis
        by (subst IsChainValid_loop.simps) (auto simp: Let_def)
    next
      case ok: True
      have "IsChainValid_loop H chain i = IsChainValid_loop H chain (i + 1)"
        using True ok by (subst IsChainValid_loop.simps) (simp add: Let_def)
      also have "\<dots> \<longleftrightarrow> (\<forall>j. i + 1 \<le> j \<and> j < length chain \<longrightarrow> ?ok j)"
        using "1.IH" True ok by (simp add: Let_def)
      also have "\<dots> \<longleftrightarrow> (\<forall>j. i \<le> j \<and> j < length chain \<longrightarrow> ?ok j)"
      proof
        assume a: "\<forall>j. i + 1 \<le> j \<and> j < length chain \<longrightarrow> ?ok j"
        show "\<forall>j. i \<le> j \<and> j < length chain \<longrightarrow> ?ok j"
        proof (intro allI impI)
          fix j assume j: "i \<le> j \<and> j < length chain"
          show "?ok j"
          proof (cases "j = i")
            case True then show ?thesis using ok by simp
          next
            case False
            with j have "i + 1 \<le> j \<and> j < length chain" by simp
            with a show ?thesis by blast
          qed
        qed
      next
        assume "\<forall>j. i \<le> j \<and> j < length chain \<longrightarrow> ?ok j"
        then show "\<forall>j. i + 1 \<le> j \<and> j < length chain \<longrightarrow> ?ok j"
          by simp
      qed
      finally show ?thesis .
    qed
  qed
qed

lemma IsValidChain_loop_iff:
  "IsValidChain_loop chain i \<longleftrightarrow>
     (\<forall>j. i \<le> j \<and> j < length chain \<longrightarrow>
        Hash (chain ! j) \<noteq> '''' \<and> (0 < j \<longrightarrow> PreviousHash (chain ! j) = Hash (chain ! (j - 1))))"
proof (induction chain i rule: IsValidChain_loop.induct)
  case (1 chain i)
  let ?ok = "\<lambda>j. Hash (chain ! j) \<noteq> '''' \<and> (0 < j \<longrightarrow> PreviousHash (chain ! j) = Hash (chain ! (j - 1)))"
  show ?case
  proof (cases "i < length chain")
    case False
    then show ?thesis by (subst IsValidChain_loop.simps) auto
  next
    case True
    show ?thesis
    proof (cases "?ok i")
      case False
      with True show ?thesis
        by (subst IsValidChain_loop.simps) (auto simp: Let_def)
    next
      case ok: True
      have "IsValidChain_loop chain i = IsValidChain_loop chain (i + 1)"
        using True ok by (subst IsValidChain_loop.simps) (auto simp: Let_def)
      also have "\<dots> \<longleftrightarrow> (\<forall>j. i + 1 \<le> j \<and> j < length chain \<longrightarrow> ?ok j)"
        using "1.IH" True ok by (auto simp: Let_def)
      also have "\<dots> \<longleftrightarrow> (\<forall>j. i \<le> j \<and> j < length chain \<longrightarrow> ?ok j)"
      proof
        assume a: "\<forall>j. i + 1 \<le> j \<and> j < length chain \<longrightarrow> ?ok j"
        show "\<forall>j. i \<le> j \<and> j < length chain \<longrightarrow> ?ok j"
        proof (intro allI impI)
          fix j assume j: "i \<le> j \<and> j < length chain"
          show "?ok j"
          proof (cases "j = i")
            case True then show ?thesis using ok by simp
          next
            case False
            with j have "i + 1 \<le> j \<and> j < length chain" by simp
            with a show ?thesis by blast
          qed
        qed
      next
        assume "\<forall>j. i \<le> j \<and> j < length chain \<longrightarrow> ?ok j"
        then show "\<forall>j. i + 1 \<le> j \<and> j < length chain \<longrightarrow> ?ok j"
          by simp
      qed
      finally show ?thesis .
    qed
  qed
qed

lemma IsValidChain_iff:
  "IsValidChain chain \<longleftrightarrow>
     chain \<noteq> [] \<and> (\<forall>i<length chain. Hash (chain ! i) \<noteq> ''''
                      \<and> (0 < i \<longrightarrow> PreviousHash (chain ! i) = Hash (chain ! (i - 1))))"
  by (simp add: IsValidChain_def IsValidChain_loop_iff)

lemma HasBlock_loop_iff: "HasBlock_loop chain h \<longleftrightarrow> h \<in> Hash ` set chain"
  by (induction chain) auto

lemma jsonUnmarshal_fmtSprintfV:
  "jsonUnmarshal decode (fmtSprintfV fmtV d) = Inl JSONSyntaxError"
  by (simp add: jsonUnmarshal_def fmtSprintfV_def isSpace_def beginsValue_def)

lemma rebuildContracts_loop_unchanged:
  "rebuildContracts_loop fmtV decode blocks contracts = contracts"
  by (induction blocks arbitrary: contracts) (simp_all add: jsonUnmarshal_fmtSprintfV)

lemma exampleDigest_nonempty: "exampleDigest v \<noteq> ''''"
  by (simp add: exampleDigest_def)

lemma exampleClock_nonzero: "\<not> IsZero (exampleClock n)"
  by (simp add: exampleClock_def IsZero_def zeroTime_def)

section \<open>Facts about the workflow\<close>

lemma template_roles:
  "map WorkflowStep.Role GetWorkflowSteps =
     [RoleProjectDeveloper, RoleTechnicalCommission, RoleLegalCommission,
      RoleContractsChief, RoleAdminChief, RoleBudgetAuthority]"
  by (simp add: GetWorkflowSteps_def)

lemma pendingStep_Role [simp]: "ValidationStep.Role (pendingStep s) = WorkflowStep.Role s"
  by (simp add: pendingStep_def)

lemma pendingStep_Status [simp]: "ValidationStep.Status (pendingStep s) = ValidationPending"
  by (simp add: pendingStep_def)

lemma addAuditEntry_fields [simp]:
  "AuditTrail (addAuditEntry c a u r d uid t) =
     AuditTrail c @ [\<lparr>AuditEntry.ID = uid, Action = a, UserID = u, UserRole = r,
                       AuditEntry.Timestamp = t, AuditEntry.Description = d, IPAddress = ''''\<rparr>]"
  "Contract.Status (addAuditEntry c a u r d uid t) = Contract.Status c"
  "Contract.CurrentStep (addAuditEntry c a u r d uid t) = Contract.CurrentStep c"
  "ValidationSteps (addAuditEntry c a u r d uid t) = ValidationSteps c"
  "Contract.ID (addAuditEntry c a u r d uid t) = Contract.ID c"
  by (simp_all add: addAuditEntry_def)

lemma InitializeContractWorkflow_fields:
  "fst (InitializeContractWorkflow c t uid ta) = None"
  "Contract.CurrentStep (snd (InitializeContractWorkflow c t uid ta)) = 1"
  "Contract.Status (snd (InitializeContractWorkflow c t uid ta)) = StatusDraft"
  "ValidationSteps (snd (InitializeContractWorkflow c t uid ta)) = map pendingStep GetWorkflowSteps"
  "Contract.ID (snd (InitializeContractWorkflow c t uid ta)) = Contract.ID c"
  "length (AuditTrail (snd (InitializeContractWorkflow c t uid ta))) = length (AuditTrail c) + 1"
  by (simp_all add: InitializeContractWorkflow_def Let_def)

lemma AddContract_init_fields:
  "fst (AddContract_init c clk ids) = None"
  "Contract.CurrentStep (snd (AddContract_init c clk ids)) = 1"
  "Contract.Status (snd (AddContract_init c clk ids)) = StatusDraft"
  "ValidationSteps (snd (AddContract_init c clk ids)) = map pendingStep GetWorkflowSteps"
  "Contract.ID (snd (AddContract_init c clk ids)) = (if Contract.ID c = '''' then ids 0 else Contract.ID c)"
  "length (AuditTrail (snd (AddContract_init c clk ids))) = length (AuditTrail c) + 1"
  by (simp_all add: AddContract_init_def Let_def InitializeContractWorkflow_fields)

lemma AddContract_unfold:
  "validateContract c = None \<Longrightarrow>
   AddContract H bc c clk ids =
     AddBlock H (bc\<lparr>Contracts := (Contracts bc)(Contract.ID (snd (AddContract_init c clk ids))
                                     \<mapsto> snd (AddContract_init c clk ids))\<rparr>)
       (AddContract_blockData (snd (AddContract_init c clk ids))) (clk 4)"
  using AddContract_init_fields(1) [of c clk ids]
  by (cases "AddContract_init c clk ids") (simp add: AddContract_def Let_def)

lemma AddContract_fresh:
  assumes "AddContract H bc c clk ids = (None, bc0)"
  shows "Contracts bc0 (Contract.ID (snd (AddContract_init c clk ids)))
           = Some (snd (AddContract_init c clk ids))
         \<and> Chain bc0 \<noteq> []"
proof -
  have v: "validateContract c = None"
    using assms by (cases "validateContract c") (simp_all add: AddContract_def)
  let ?c0 = "snd (AddContract_init c clk ids)"
  let ?bc = "bc\<lparr>Contracts := (Contracts bc)(Contract.ID ?c0 \<mapsto> ?c0)\<rparr>"
  have "AddBlock H ?bc (AddContract_blockData ?c0) (clk 4) = (None, bc0)"
    using assms AddContract_unfold [OF v, of H bc clk ids] by simp
  then have "bc0 = ?bc\<lparr>Chain := Chain ?bc @ [AddBlock_block H (Chain ?bc) (AddContract_blockData ?c0) (clk 4)]\<rparr>"
    using AddBlock_cases [of H ?bc "AddContract_blockData ?c0" "clk 4"] by auto
  then show ?thesis by simp
qed

lemma ValidateStep_pass:
  assumes "Contracts bc cid = Some c" and "stepNumber = Contract.CurrentStep c"
    and "1 \<le> stepNumber" and "stepNumber \<le> int (length (ValidationSteps c))"
    and "ValidationStep.Role (ValidationSteps c ! nat (stepNumber - 1)) = role"
  shows "ValidateStep H bc cid stepNumber vid vname role approved comments clk ids =
           AddBlock H
             (bc\<lparr>Contracts := (Contracts bc)(cid \<mapsto>
                   fst (ValidateStep_update c stepNumber vid vname role approved comments clk ids))\<rparr>)
             (ValidateStep_blockData cid stepNumber vid role approved comments
                (clk (snd (ValidateStep_update c stepNumber vid vname role approved comments clk ids))))
             (clk (snd (ValidateStep_update c stepNumber vid vname role approved comments clk ids) + 1))"
  using assms
  by (cases "ValidateStep_update c stepNumber vid vname role approved comments clk ids")
     (simp add: ValidateStep_def Let_def)

lemma ValidateStep_update_approved:
  assumes "1 \<le> stepNumber"
  shows "ValidationSteps (fst (ValidateStep_update c stepNumber vid vname role True comments clk ids))
           = (ValidationSteps c)[nat (stepNumber - 1) :=
                (ValidationSteps c ! nat (stepNumber - 1))
                  \<lparr>ValidatorID := vid, ValidatorName := vname,
                   ValidationStep.Timestamp := clk 0, Comments := comments,
                   ValidationStep.Status := ValidationApproved\<rparr>]"
    and "Contract.CurrentStep (fst (ValidateStep_update c stepNumber vid vname role True comments clk ids))
           = (if stepNumber < int (length (ValidationSteps c)) then Contract.CurrentStep c + 1
              else Contract.CurrentStep c)"
    and "Contract.Status (fst (ValidateStep_update c stepNumber vid vname role True comments clk ids))
           = (if stepNumber < int (length (ValidationSteps c))
              then getStatusForStep (Contract.CurrentStep c + 1)
              else StatusAuthorizedForPublication)"
    and "length (AuditTrail (fst (ValidateStep_update c stepNumber vid vname role True comments clk ids)))
           = length (AuditTrail c) + (if stepNumber < int (length (ValidationSteps c)) then 1 else 2)"
    and "Contract.ID (fst (ValidateStep_update c stepNumber vid vname role True comments clk ids))
           = Contract.ID c"
  by (simp_all add: ValidateStep_update_def Let_def)

lemma map_update_same: "(map f xs)[i := f (xs ! i)] = map f xs"
  by (metis list_update_id map_update)

lemma ValidateStep_update_rejected:
  shows "Contract.CurrentStep (fst (ValidateStep_update c stepNumber vid vname role False comments clk ids))
           = Contract.CurrentStep c"
    and "Contract.Status (fst (ValidateStep_update c stepNumber vid vname role False comments clk ids))
           = StatusRejected"
    and "map ValidationStep.Role
           (ValidationSteps (fst (ValidateStep_update c stepNumber vid vname role False comments clk ids)))
           = map ValidationStep.Role (ValidationSteps c)"
    and "length (AuditTrail (fst (ValidateStep_update c stepNumber vid vname role False comments clk ids)))
           = length (AuditTrail c) + 1"
  by (simp_all add: ValidateStep_update_def Let_def map_update map_update_same)

lemma ValidateStep_update_snd:
  "snd (ValidateStep_update c stepNumber vid vname role approved comments clk ids) =
     (if approved \<and> \<not> stepNumber < int (length (ValidationSteps c)) then 4 else 3)"
  by (simp add: ValidateStep_update_def Let_def)

lemma ValidateStep_update_approved_trail:
  "AuditTrail (fst (ValidateStep_update c stepNumber vid vname role True comments clk ids))
     = AuditTrail c @
         (if stepNumber < int (length (ValidationSteps c))
          then [approvalEntry stepNumber vid role comments (ids 0) (clk 1)]
          else [approvalEntry stepNumber vid role comments (ids 0) (clk 1),
                completionEntry vid role (ids 1) (clk 2)])"
  by (simp add: ValidateStep_update_def Let_def approvalEntry_def completionEntry_def)

section \<open>Facts about the examples\<close>

lemmas eval_digest =
  calculateHash_def hashRecord_def exampleDigest_def itoa_def decimal.simps digitChar_def

lemma NewBlockchain_Chain [simp]: "Chain (NewBlockchain H now) = [genesisBlock H now]"
  by (simp add: NewBlockchain_def)

lemma NewBlockchain_Contracts [simp]: "Contracts (NewBlockchain H now) = Map.empty"
  by (simp add: NewBlockchain_def)

lemma genesisBlock_fields [simp]:
  "Index (genesisBlock H now) = 0"
  "Block.Timestamp (genesisBlock H now) = now"
  "Data (genesisBlock H now) = [(''message'', JString ''SECOP Blockchain Genesis Block'')]"
  "PreviousHash (genesisBlock H now) = ''''"
  "Nonce (genesisBlock H now) = 0"
  "Type (genesisBlock H now) = ''''"
  by (simp_all add: genesisBlock_def Let_def)

lemma genesisBlock_Hash: "Hash (genesisBlock H now) = calculateHash H (genesisBlock H now)"
  by (simp add: genesisBlock_def Let_def calculateHash_def hashRecord_def)

lemma exampleContract_valid: "validateContract exampleContract = None"
  by (simp add: validateContract_def exampleContract_def)

lemma exampleContract_init_ID [simp]:
  "Contract.ID (snd (AddContract_init exampleContract exampleClock exampleIds)) = ''c-1''"
  by (simp add: AddContract_init_fields exampleContract_def)

lemma peerLedger_eq:
  "peerLedger =
     \<lparr>Chain = [genesisBlock exampleDigest (Time 900 0),
               AddBlock_block exampleDigest [genesisBlock exampleDigest (Time 900 0)]
                 (AddContract_blockData (snd (AddContract_init exampleContract exampleClock exampleIds)))
                 (exampleClock 4)],
      Contracts = [''c-1'' \<mapsto> snd (AddContract_init exampleContract exampleClock exampleIds)]\<rparr>"
  by (simp add: peerLedger_def AddContract_unfold [OF exampleContract_valid] AddBlock_ok
        exampleDigest_nonempty exampleClock_nonzero NewBlockchain_def)

lemma peerLedger_Chain:
  "Chain peerLedger =
     [genesisBlock exampleDigest (Time 900 0),
      AddBlock_block exampleDigest [genesisBlock exampleDigest (Time 900 0)]
        (AddContract_blockData (snd (AddContract_init exampleContract exampleClock exampleIds)))
        (exampleClock 4)]"
  by (simp add: peerLedger_eq)

lemma peerLedger_length: "length (Chain peerLedger) = 2"
  by (simp add: peerLedger_Chain)

lemma peerLedger_block0:
  "Hash (Chain peerLedger ! 0) \<noteq> ''''"
  by (simp add: peerLedger_Chain genesisBlock_Hash calculateHash_def exampleDigest_nonempty)

lemma peerLedger_block1:
  "Hash (Chain peerLedger ! 1) \<noteq> ''''"
  "PreviousHash (Chain peerLedger ! 1) = Hash (Chain peerLedger ! 0)"
  "IsValid exampleDigest (Chain peerLedger ! 1)"
  "Type (Chain peerLedger ! 1) = ''CONTRACT_CREATION''"
  by (simp_all add: peerLedger_Chain AddBlock_block_Hash calculateHash_def exampleDigest_nonempty
        AddBlock_block_IsValid AddBlock_block_Type AddContract_blockData_def)

lemma exampleContract_init_fields:
  "EntityCode (snd (AddContract_init exampleContract exampleClock exampleIds)) = ''08001''"
  "EntityName (snd (AddContract_init exampleContract exampleClock exampleIds)) = ''Alcaldia de Medellin''"
  "Amount (snd (AddContract_init exampleContract exampleClock exampleIds)) = 2500000000"
  "CreatedBy (snd (AddContract_init exampleContract exampleClock exampleIds)) = ''dev-1''"
  "CreatedAt (snd (AddContract_init exampleContract exampleClock exampleIds)) = Time 1000 0"
  by (simp_all add: AddContract_init_def InitializeContractWorkflow_def addAuditEntry_def Let_def
        exampleContract_def exampleClock_def)

lemma peerLedger_hashes_differ: "Hash (Chain peerLedger ! 1) \<noteq> Hash (Chain peerLedger ! 0)"
  by (simp add: peerLedger_Chain AddBlock_block_Hash genesisBlock_Hash eval_digest
        AddBlock_block_Type AddContract_blockData_def exampleContract_init_fields exampleClock_def)

lemma peerLedger_contract:
  "Contracts peerLedger ''c-1'' = Some (snd (AddContract_init exampleContract exampleClock exampleIds))"
  by (simp add: peerLedger_eq)

lemma peerLedger2_eq:
  "peerLedger2 =
     peerLedger\<lparr>Contracts := (Contracts peerLedger)(''c-1'' \<mapsto>
                   fst (ValidateStep_update (snd (AddContract_init exampleContract exampleClock exampleIds))
                          1 ''dev-1'' ''Developer'' RoleProjectDeveloper True ''ok''
                          exampleClock exampleIds)),
                 Chain := Chain peerLedger @
                   [AddBlock_block exampleDigest (Chain peerLedger)
                      (ValidateStep_blockData ''c-1'' 1 ''dev-1'' RoleProjectDeveloper True ''ok''
                         (exampleClock 3))
                      (exampleClock 4)]\<rparr>"
proof -
  let ?c = "snd (AddContract_init exampleContract exampleClock exampleIds)"
  have role: "ValidationStep.Role (ValidationSteps ?c ! nat (1 - 1)) = RoleProjectDeveloper"
    by (simp add: AddContract_init_fields GetWorkflowSteps_def)
  have len: "(1::int) \<le> int (length (ValidationSteps ?c))"
    by (simp add: AddContract_init_fields GetWorkflowSteps_def)
  have cur: "(1::int) = Contract.CurrentStep ?c"
    by (simp add: AddContract_init_fields)
  have n: "snd (ValidateStep_update ?c 1 ''dev-1'' ''Developer'' RoleProjectDeveloper True ''ok''
                  exampleClock exampleIds) = 3"
    by (simp add: ValidateStep_update_snd AddContract_init_fields GetWorkflowSteps_def)
  have ne: "Chain peerLedger \<noteq> []" by (simp add: peerLedger_Chain)
  show ?thesis
    unfolding peerLedger2_def
    by (simp add: ValidateStep_pass [OF peerLedger_contract cur _ len role] n AddBlock_ok ne
          exampleDigest_nonempty exampleClock_nonzero)
qed

lemma peerLedger2_Chain:
  "Chain peerLedger2 =
     Chain peerLedger @
       [AddBlock_block exampleDigest (Chain peerLedger)
          (ValidateStep_blockData ''c-1'' 1 ''dev-1'' RoleProjectDeveloper True ''ok'' (exampleClock 3))
          (exampleClock 4)]"
  by (simp add: peerLedger2_eq)

lemma peerLedger2_length: "length (Chain peerLedger2) = 3"
  by (simp add: peerLedger2_Chain peerLedger_length)

lemma peerLedger2_block1: "Chain peerLedger2 ! 1 = Chain peerLedger ! 1"
  "Chain peerLedger2 ! 0 = Chain peerLedger ! 0"
  by (simp_all add: peerLedger2_Chain peerLedger_Chain)

lemma peerLedger2_block2:
  "IsValid exampleDigest (Chain peerLedger2 ! 2)"
  "PreviousHash (Chain peerLedger2 ! 2) = Hash (Chain peerLedger2 ! 1)"
  by (simp_all add: peerLedger2_Chain peerLedger_Chain AddBlock_block_IsValid)

lemma peerLedger2_links:
  "\<forall>i. 1 \<le> i \<and> i < length (Chain peerLedger2) \<longrightarrow>
       IsValid exampleDigest (Chain peerLedger2 ! i)
       \<and> PreviousHash (Chain peerLedger2 ! i) = Hash (Chain peerLedger2 ! (i - 1))"
proof (intro allI impI)
  fix i assume "1 \<le> i \<and> i < length (Chain peerLedger2)"
  then have "i = 1 \<or> i = 2" using peerLedger2_length by auto
  moreover have "IsValid exampleDigest (Chain peerLedger2 ! 1)
       \<and> PreviousHash (Chain peerLedger2 ! 1) = Hash (Chain peerLedger2 ! (1 - 1))"
    by (simp add: peerLedger2_Chain peerLedger_Chain AddBlock_block_IsValid)
  moreover have "IsValid exampleDigest (Chain peerLedger2 ! 2)
       \<and> PreviousHash (Chain peerLedger2 ! 2) = Hash (Chain peerLedger2 ! (2 - 1))"
    by (simp add: peerLedger2_Chain peerLedger_Chain AddBlock_block_IsValid)
  ultimately show "IsValid exampleDigest (Chain peerLedger2 ! i)
       \<and> PreviousHash (Chain peerLedger2 ! i) = Hash (Chain peerLedger2 ! (i - 1))"
    by blast
qed

lemma peerLedger2_hashes_differ:
  "Hash (Chain peerLedger2 ! 1) \<noteq> Hash (Chain peerLedger2 ! (1 - 1))"
  using peerLedger_hashes_differ
  by (simp add: peerLedger2_Chain nth_append peerLedger_length)

lemma tamperedLedger2_block1: "\<not> IsValid exampleDigest (Chain tamperedLedger2 ! 1)"
  by (simp add: tamperedLedger2_def peerLedger2_Chain peerLedger_Chain IsValid_def
        AddBlock_block_Hash eval_digest AddBlock_block_Type AddContract_blockData_def
        exampleContract_init_fields exampleClock_def)

section \<open>Facts about the canonical order of keys\<close>

lemma filter_same_key_distinct:
  "distinct (map f xs) \<Longrightarrow> k \<in> set xs \<Longrightarrow> filter (\<lambda>x. f k = f x) xs = [k]"
proof (induction xs)
  case Nil
  then show ?case by simp
next
  case (Cons a xs)
  show ?case
  proof (cases "k = a")
    case True
    have "filter (\<lambda>x. f a = f x) xs = []"
      using Cons.prems(1) by (auto simp: filter_empty_conv)
    with True show ?thesis by simp
  next
    case False
    with Cons.prems have k: "k \<in> set xs" by simp
    then have "f k \<noteq> f a" using Cons.prems(1) by (force simp: image_iff)
    with Cons.IH k Cons.prems(1) show ?thesis by simp
  qed
qed

lemma sort_key_permutation:
  assumes "distinct (map f xs)" and "mset ys = mset xs"
  shows "sort_key f ys = sort_key f xs"
proof (rule properties_for_sort_key)
  show "mset (sort_key f xs) = mset ys" using assms(2) by simp
next
  have set_eq: "set ys = set xs" using assms(2) by (rule mset_eq_setD)
  have "mset (map f ys) = mset (map f xs)" using assms(2) by (metis mset_map)
  then have dist: "distinct (map f ys)"
    using assms(1) by (metis mset_eq_imp_distinct_iff)
  fix k assume "k \<in> set (sort_key f xs)"
  then have k: "k \<in> set xs" by simp
  have "distinct (map f (sort_key f xs))"
    using assms(1) by (metis distinct_sort sort_key_def map_map distinct_map distinct_insort set_sort
        mset_eq_imp_distinct_iff mset_map mset_sort)
  then have "filter (\<lambda>x. f k = f x) (sort_key f xs) = [k]"
    using k by (simp add: filter_same_key_distinct)
  moreover have "filter (\<lambda>x. f k = f x) ys = [k]"
    using dist k set_eq by (simp add: filter_same_key_distinct)
  ultimately show "filter (\<lambda>x. f k = f x) (sort_key f xs) = filter (\<lambda>x. f k = f x) ys"
    by simp
next
  show "sorted (map f (sort_key f xs))" by simp
qed

lemma jsonCanonical_permutation:
  assumes "distinct (map fst d)" and "mset d' = mset d"
  shows "jsonCanonical (JMap d') = jsonCanonical (JMap d)"
proof -
  let ?g = "map_prod id jsonCanonical :: string \<times> JValue \<Rightarrow> string \<times> JValue"
  have "map fst (map ?g d) = map fst d" by simp
  then have "distinct (map fst (map ?g d))" using assms(1) by simp
  moreover have "mset (map ?g d') = mset (map ?g d)" using assms(2) by (metis mset_map)
  ultimately have "sort_key fst (map ?g d') = sort_key fst (map ?g d)"
    by (rule sort_key_permutation)
  then show ?thesis by simp
qed

section \<open>Facts about the approval path\<close>

lemma template_length [simp]: "length GetWorkflowSteps = 6"
  by (simp add: GetWorkflowSteps_def)

lemma getStatusForStep_next:
  "k < 5 \<Longrightarrow> getStatusForStep (int (Suc k) + 1) = statusAfterApproval ! k"
proof -
  assume "k < 5"
  then consider "k = 0" | "k = 1" | "k = 2" | "k = 3" | "k = 4" by linarith
  then show ?thesis
    by cases (simp_all add: getStatusForStep_def statusAfterApproval_def)
qed

lemma countApproved_all:
  "(\<forall>s \<in> set steps. ValidationStep.Status s = ValidationApproved) \<Longrightarrow>
   countApproved steps n = n + int (length steps)"
  by (induction steps arbitrary: n) simp_all

lemma approvedUpTo_fresh:
  assumes "AddContract H bc contract clk ids = (None, bc0)"
    and "cid = (if Contract.ID contract = '''' then ids 0 else Contract.ID contract)"
  shows "approvedUpTo bc0 cid 0"
    and "map_option Contract.Status (Contracts bc0 cid) = Some StatusDraft"
proof -
  let ?c0 = "snd (AddContract_init contract clk ids)"
  have id: "Contract.ID ?c0 = cid" using assms(2) by (simp add: AddContract_init_fields)
  have c0: "Contracts bc0 cid = Some ?c0" and ne: "Chain bc0 \<noteq> []"
    using AddContract_fresh [OF assms(1)] id by simp_all
  show "map_option Contract.Status (Contracts bc0 cid) = Some StatusDraft"
    using c0 by (simp add: AddContract_init_fields)
  have "\<forall>i<6. ValidationStep.Status (ValidationSteps ?c0 ! i) = ValidationPending"
    by (simp add: AddContract_init_fields)
  then show "approvedUpTo bc0 cid 0"
    using c0 ne by (simp add: approvedUpTo_def AddContract_init_fields)
qed

lemma approve_step:
  assumes inv: "approvedUpTo bc cid k" and k: "k < 6"
    and H: "\<forall>v. H v \<noteq> ''''" and clk: "\<forall>n. \<not> IsZero (clk n)"
  shows "\<exists>c c' block.
           Contracts bc cid = Some c
           \<and> ValidateStep H bc cid (int (Suc k)) vid vname (WorkflowStep.Role (GetWorkflowSteps ! k))
               True comments clk ids
             = (None, bc\<lparr>Contracts := (Contracts bc)(cid \<mapsto> c'), Chain := Chain bc @ [block]\<rparr>)
           \<and> approvedUpTo (bc\<lparr>Contracts := (Contracts bc)(cid \<mapsto> c'), Chain := Chain bc @ [block]\<rparr>)
               cid (Suc k)
           \<and> Contract.Status c' = statusAfterApproval ! k
           \<and> length (AuditTrail c') = length (AuditTrail c) + (if k = 5 then 2 else 1)
           \<and> Type block = ''VALIDATION''
           \<and> AuditTrail c' = AuditTrail c @
                 (if k = 5
                  then [approvalEntry (int (Suc k)) vid (WorkflowStep.Role (GetWorkflowSteps ! k))
                          comments (ids 0) (clk 1),
                        completionEntry vid (WorkflowStep.Role (GetWorkflowSteps ! k)) (ids 1) (clk 2)]
                  else [approvalEntry (int (Suc k)) vid (WorkflowStep.Role (GetWorkflowSteps ! k))
                          comments (ids 0) (clk 1)])
           \<and> block = AddBlock_block H (Chain bc)
                       (ValidateStep_blockData cid (int (Suc k)) vid
                          (WorkflowStep.Role (GetWorkflowSteps ! k)) True comments
                          (clk (if k = 5 then 4 else 3)))
                       (clk (if k = 5 then 5 else 4))"
proof -
  let ?role = "WorkflowStep.Role (GetWorkflowSteps ! k)"
  let ?n = "int (Suc k)"
  obtain c where c: "Contracts bc cid = Some c"
    using inv by (auto simp: approvedUpTo_def split: option.splits)
  have ne: "Chain bc \<noteq> []" using inv by (simp add: approvedUpTo_def)
  have cur: "Contract.CurrentStep c = ?n"
    using inv c k by (simp add: approvedUpTo_def min_def)
  have roles: "map ValidationStep.Role (ValidationSteps c) = map WorkflowStep.Role GetWorkflowSteps"
    using inv c by (simp add: approvedUpTo_def)
  have stats: "\<forall>i<6. ValidationStep.Status (ValidationSteps c ! i)
                        = (if i < k then ValidationApproved else ValidationPending)"
    using inv c by (simp add: approvedUpTo_def)
  have len: "length (ValidationSteps c) = 6"
    using roles by (metis length_map template_length)
  have role: "ValidationStep.Role (ValidationSteps c ! nat (?n - 1)) = ?role"
  proof -
    have "map ValidationStep.Role (ValidationSteps c) ! k = map WorkflowStep.Role GetWorkflowSteps ! k"
      using roles by simp
    then show ?thesis using k len by simp
  qed
  let ?U = "ValidateStep_update c ?n vid vname ?role True comments clk ids"
  let ?c' = "fst ?U"
  let ?bc = "bc\<lparr>Contracts := (Contracts bc)(cid \<mapsto> ?c')\<rparr>"
  let ?d = "ValidateStep_blockData cid ?n vid ?role True comments (clk (snd ?U))"
  let ?block = "AddBlock_block H (Chain bc) ?d (clk (snd ?U + 1))"
  let ?bc' = "bc\<lparr>Contracts := (Contracts bc)(cid \<mapsto> ?c'), Chain := Chain bc @ [?block]\<rparr>"
  have "ValidateStep H bc cid ?n vid vname ?role True comments clk ids
          = AddBlock H ?bc ?d (clk (snd ?U + 1))"
    using k len by (intro ValidateStep_pass [OF c _ _ _ role]) (simp_all add: cur)
  also have "\<dots> = (None, ?bc\<lparr>Chain := Chain ?bc @ [?block]\<rparr>)"
    using AddBlock_ok [of ?bc H "clk (snd ?U + 1)" ?d] ne H clk by simp
  finally have run: "ValidateStep H bc cid ?n vid vname ?role True comments clk ids = (None, ?bc')"
    by simp
  have one: "(1::int) \<le> ?n" by simp
  note upd = ValidateStep_update_approved [OF one, of c vid vname ?role comments clk ids]
  have cur': "Contract.CurrentStep ?c' = int (min (Suc (Suc k)) 6)"
    using upd(2) k len cur by (auto simp: min_def)
  have roles': "map ValidationStep.Role (ValidationSteps ?c') = map WorkflowStep.Role GetWorkflowSteps"
  proof -
    have "map ValidationStep.Role (ValidationSteps ?c')
            = (map ValidationStep.Role (ValidationSteps c))
                [k := ValidationStep.Role (ValidationSteps c ! k)]"
      using upd(1) by (simp add: map_update)
    also have "\<dots> = map ValidationStep.Role (ValidationSteps c)"
      by (rule map_update_same)
    finally show ?thesis using roles by simp
  qed
  have stats': "\<forall>i<6. ValidationStep.Status (ValidationSteps ?c' ! i)
                        = (if i < Suc k then ValidationApproved else ValidationPending)"
    using upd(1) stats len k by (auto simp: nth_list_update)
  have status': "Contract.Status ?c' = statusAfterApproval ! k"
  proof (cases "k = 5")
    case True
    then show ?thesis using upd(3) len by (simp add: statusAfterApproval_def)
  next
    case False
    then have "k < 5" using k by simp
    then show ?thesis using upd(3) len cur getStatusForStep_next [of k] by simp
  qed
  have audit': "length (AuditTrail ?c') = length (AuditTrail c) + (if k = 5 then 2 else 1)"
    using upd(4) len k by auto
  have ty: "Type ?block = ''VALIDATION''"
    by (simp add: AddBlock_block_Type ValidateStep_blockData_def)
  have inv': "approvedUpTo ?bc' cid (Suc k)"
    using ne cur' roles' stats' by (simp add: approvedUpTo_def)
  have trail': "AuditTrail ?c' = AuditTrail c @
                 (if k = 5
                  then [approvalEntry ?n vid ?role comments (ids 0) (clk 1),
                        completionEntry vid ?role (ids 1) (clk 2)]
                  else [approvalEntry ?n vid ?role comments (ids 0) (clk 1)])"
    using ValidateStep_update_approved_trail [of c ?n vid vname ?role comments clk ids] len k
    by auto
  have n: "snd ?U = (if k = 5 then 4 else 3)"
    using len k by (auto simp: ValidateStep_update_snd)
  have block': "?block = AddBlock_block H (Chain bc)
                       (ValidateStep_blockData cid ?n vid ?role True comments
                          (clk (if k = 5 then 4 else 3)))
                       (clk (if k = 5 then 5 else 4))"
    using n by simp
  show ?thesis
    using c run inv' status' audit' ty trail' block'
    by (intro exI [of _ c] exI [of _ ?c'] exI [of _ ?block]) simp
qed

lemma approveThrough_invariant:
  assumes "approvedUpTo bc0 cid 0" and "\<forall>v. H v \<noteq> ''''" and "\<forall>j n. \<not> IsZero (clks j n)"
  shows "k \<le> 6 \<Longrightarrow> approvedUpTo (approveThrough H bc0 cid vids vnames comments clks idss k) cid k"
proof (induction k)
  case 0
  then show ?case using assms(1) by simp
next
  case (Suc k)
  then have k: "k < 6" and inv: "approvedUpTo (approveThrough H bc0 cid vids vnames comments clks idss k) cid k"
    by simp_all
  have clk: "\<forall>n. \<not> IsZero (clks k n)" using assms(3) by simp
  show ?case
    using approve_step [OF inv k assms(2) clk, of "vids k" "vnames k" "comments k" "idss k"]
    by auto
qed

lemma approveThrough_step:
  assumes "approvedUpTo bc0 cid 0" and "\<forall>v. H v \<noteq> ''''" and "\<forall>j n. \<not> IsZero (clks j n)"
    and "k < 6"
  shows "fst (ValidateStep H (approveThrough H bc0 cid vids vnames comments clks idss k) cid
                (int (Suc k)) (vids k) (vnames k) (WorkflowStep.Role (GetWorkflowSteps ! k)) True
                (comments k) (clks k) (idss k)) = None
         \<and> map_option Contract.Status
              (Contracts (approveThrough H bc0 cid vids vnames comments clks idss (Suc k)) cid)
             = Some (statusAfterApproval ! k)
         \<and> map_option (\<lambda>c. length (AuditTrail c))
              (Contracts (approveThrough H bc0 cid vids vnames comments clks idss (Suc k)) cid)
             = map_option (\<lambda>c. length (AuditTrail c) + (if k = 5 then 2 else 1))
                 (Contracts (approveThrough H bc0 cid vids vnames comments clks idss k) cid)
         \<and> length (Chain (approveThrough H bc0 cid vids vnames comments clks idss (Suc k)))
             = length (Chain (approveThrough H bc0 cid vids vnames comments clks idss k)) + 1"
proof -
  have inv: "approvedUpTo (approveThrough H bc0 cid vids vnames comments clks idss k) cid k"
    using approveThrough_invariant [OF assms(1-3)] assms(4) by simp
  have clk: "\<forall>n. \<not> IsZero (clks k n)" using assms(3) by simp
  show ?thesis
    using approve_step [OF inv assms(4) assms(2) clk, of "vids k" "vnames k" "comments k" "idss k"]
    by auto
qed

lemma approveThrough_status_read:
  assumes "approvedUpTo bc0 cid 0" and "\<forall>v. H v \<noteq> ''''" and "\<forall>j n. \<not> IsZero (clks j n)"
  shows "\<exists>ws. GetContractWorkflowStatus (approveThrough H bc0 cid vids vnames comments clks idss 6) cid
                = Inr ws
              \<and> WorkflowStatus.CurrentStep ws = 6 \<and> TotalSteps ws = 6 \<and> CompletedSteps ws = 6
              \<and> WorkflowStatus.Status ws = StatusAuthorizedForPublication
              \<and> CanAdvance ws \<and> NextRole ws = RoleBudgetAuthority"
proof -
  let ?bc = "approveThrough H bc0 cid vids vnames comments clks idss 6"
  have inv: "approvedUpTo ?bc cid 6"
    using approveThrough_invariant [OF assms] by simp
  then obtain c where c: "Contracts ?bc cid = Some c"
    by (auto simp: approvedUpTo_def split: option.splits)
  have cur: "Contract.CurrentStep c = 6" using inv c by (simp add: approvedUpTo_def)
  have roles: "map ValidationStep.Role (ValidationSteps c) = map WorkflowStep.Role GetWorkflowSteps"
    using inv c by (simp add: approvedUpTo_def)
  have len: "length (ValidationSteps c) = 6" using roles by (metis length_map template_length)
  have stats: "\<forall>i<6. ValidationStep.Status (ValidationSteps c ! i) = ValidationApproved"
    using inv c by (simp add: approvedUpTo_def)
  have "\<forall>s \<in> set (ValidationSteps c). ValidationStep.Status s = ValidationApproved"
    using stats len by (auto simp: in_set_conv_nth)
  then have completed: "countApproved (ValidationSteps c) 0 = 6"
    using len by (simp add: countApproved_all)
  have "map ValidationStep.Role (ValidationSteps c) ! 5 = map WorkflowStep.Role GetWorkflowSteps ! 5"
    using roles by simp
  then have role: "ValidationStep.Role (ValidationSteps c ! 5) = RoleBudgetAuthority"
    using len by (simp add: GetWorkflowSteps_def)
  have status: "Contract.Status c = StatusAuthorizedForPublication"
    using approveThrough_step [OF assms, of 5 vids vnames comments idss] c
    by (simp add: statusAfterApproval_def eval_nat_numeral)
  have "StatusAuthorizedForPublication \<noteq> StatusRejected
        \<and> StatusAuthorizedForPublication \<noteq> StatusCompleted"
    by (simp add: StatusAuthorizedForPublication_def StatusRejected_def StatusCompleted_def)
  then show ?thesis
    using c cur len completed role status
    by (simp add: GetContractWorkflowStatus_def getNextRole_def Let_def)
qed

lemma peerLedger_fresh:
  "AddContract exampleDigest (NewBlockchain exampleDigest (Time 900 0)) exampleContract
     exampleClock exampleIds = (None, peerLedger)"
  by (simp add: peerLedger_eq AddContract_unfold [OF exampleContract_valid] AddBlock_ok
        exampleDigest_nonempty exampleClock_nonzero NewBlockchain_def)

lemma peerLedger_approvedUpTo: "approvedUpTo peerLedger ''c-1'' 0"
  using approvedUpTo_fresh(1) [OF peerLedger_fresh, of "''c-1''"]
  by (simp add: exampleContract_def)

lemma peerLedger_audit_length:
  "map_option (\<lambda>c. length (AuditTrail c)) (Contracts peerLedger ''c-1'') = Some 1"
  by (simp add: peerLedger_contract AddContract_init_fields exampleContract_def)

lemma exampleRun_step:
  assumes "k < 6"
  shows "fst (ValidateStep exampleDigest (exampleRun k) ''c-1'' (int (Suc k)) (exampleIds k)
                (exampleIds k) (WorkflowStep.Role (GetWorkflowSteps ! k)) True (exampleIds k)
                exampleClock exampleIds) = None
         \<and> map_option Contract.Status (Contracts (exampleRun (Suc k)) ''c-1'')
             = Some (statusAfterApproval ! k)
         \<and> map_option (\<lambda>c. length (AuditTrail c)) (Contracts (exampleRun (Suc k)) ''c-1'')
             = map_option (\<lambda>c. length (AuditTrail c) + (if k = 5 then 2 else 1))
                 (Contracts (exampleRun k) ''c-1'')
         \<and> length (Chain (exampleRun (Suc k))) = length (Chain (exampleRun k)) + 1"
  unfolding exampleRun_def
  using approveThrough_step [OF peerLedger_approvedUpTo, of exampleDigest "\<lambda>j. exampleClock" k
          exampleIds exampleIds exampleIds "\<lambda>j. exampleIds"]
        assms exampleDigest_nonempty exampleClock_nonzero
  by simp

lemma exampleRun_audit_length:
  "k \<le> 5 \<Longrightarrow>
   map_option (\<lambda>c. length (AuditTrail c)) (Contracts (exampleRun k) ''c-1'') = Some (Suc k)"
proof (induction k)
  case 0
  then show ?case using peerLedger_audit_length by (simp add: exampleRun_def)
next
  case (Suc k)
  then have "k < 6" and "k \<noteq> 5" by simp_all
  then show ?case using exampleRun_step [of k] Suc by simp
qed

lemma approveThrough_step_exact:
  assumes "approvedUpTo bc0 cid 0" and "\<forall>v. H v \<noteq> ''''" and "\<forall>j n. \<not> IsZero (clks j n)"
    and "k < 6"
  shows "\<exists>c c'.
           Contracts (approveThrough H bc0 cid vids vnames comments clks idss k) cid = Some c
           \<and> fst (ValidateStep H (approveThrough H bc0 cid vids vnames comments clks idss k) cid
                    (int (Suc k)) (vids k) (vnames k) (WorkflowStep.Role (GetWorkflowSteps ! k)) True
                    (comments k) (clks k) (idss k)) = None
           \<and> Contracts (approveThrough H bc0 cid vids vnames comments clks idss (Suc k)) cid = Some c'
           \<and> Contract.Status c' = statusAfterApproval ! k
           \<and> AuditTrail c' = AuditTrail c @
                 (if k = 5
                  then [approvalEntry (int (Suc k)) (vids k) (WorkflowStep.Role (GetWorkflowSteps ! k))
                          (comments k) (idss k 0) (clks k 1),
                        completionEntry (vids k) (WorkflowStep.Role (GetWorkflowSteps ! k))
                          (idss k 1) (clks k 2)]
                  else [approvalEntry (int (Suc k)) (vids k) (WorkflowStep.Role (GetWorkflowSteps ! k))
                          (comments k) (idss k 0) (clks k 1)])
           \<and> Chain (approveThrough H bc0 cid vids vnames comments clks idss (Suc k))
               = Chain (approveThrough H bc0 cid vids vnames comments clks idss k) @
                   [AddBlock_block H (Chain (approveThrough H bc0 cid vids vnames comments clks idss k))
                      (ValidateStep_blockData cid (int (Suc k)) (vids k)
                         (WorkflowStep.Role (GetWorkflowSteps ! k)) True (comments k)
                         (clks k (if k = 5 then 4 else 3)))
                      (clks k (if k = 5 then 5 else 4))]
           \<and> Type (last (Chain (approveThrough H bc0 cid vids vnames comments clks idss (Suc k))))
               = ''VALIDATION''"
proof -
  let ?bc = "approveThrough H bc0 cid vids vnames comments clks idss k"
  have inv: "approvedUpTo ?bc cid k"
    using approveThrough_invariant [OF assms(1-3)] assms(4) by simp
  have clk: "\<forall>n. \<not> IsZero (clks k n)" using assms(3) by simp
  obtain c c' block where
    c: "Contracts ?bc cid = Some c"
    and run: "ValidateStep H ?bc cid (int (Suc k)) (vids k) (vnames k)
                (WorkflowStep.Role (GetWorkflowSteps ! k)) True (comments k) (clks k) (idss k)
              = (None, ?bc\<lparr>Contracts := (Contracts ?bc)(cid \<mapsto> c'), Chain := Chain ?bc @ [block]\<rparr>)"
    and status: "Contract.Status c' = statusAfterApproval ! k"
    and ty: "Type block = ''VALIDATION''"
    and trail: "AuditTrail c' = AuditTrail c @
                 (if k = 5
                  then [approvalEntry (int (Suc k)) (vids k) (WorkflowStep.Role (GetWorkflowSteps ! k))
                          (comments k) (idss k 0) (clks k 1),
                        completionEntry (vids k) (WorkflowStep.Role (GetWorkflowSteps ! k))
                          (idss k 1) (clks k 2)]
                  else [approvalEntry (int (Suc k)) (vids k) (WorkflowStep.Role (GetWorkflowSteps ! k))
                          (comments k) (idss k 0) (clks k 1)])"
    and block: "block = AddBlock_block H (Chain ?bc)
                       (ValidateStep_blockData cid (int (Suc k)) (vids k)
                          (WorkflowStep.Role (GetWorkflowSteps ! k)) True (comments k)
                          (clks k (if k = 5 then 4 else 3)))
                       (clks k (if k = 5 then 5 else 4))"
    using approve_step [OF inv assms(4) assms(2) clk, of "vids k" "vnames k" "comments k" "idss k"]
    by blast
  have next_state: "approveThrough H bc0 cid vids vnames comments clks idss (Suc k)
          = ?bc\<lparr>Contracts := (Contracts ?bc)(cid \<mapsto> c'), Chain := Chain ?bc @ [block]\<rparr>"
    using run by simp
  show ?thesis
    using c run status ty trail block
    by (intro exI [of _ c] exI [of _ c']) (simp add: next_state del: approveThrough.simps)
qed

lemma SyncWithPeers_adopt_Chain:
  "Chain (Blockchain (SyncWithPeers_adopt fmtV decode p2p chain)) =
     (if length (Chain (Blockchain p2p)) < length chain
         \<and> (\<forall>i<length chain. Hash (chain ! i) \<noteq> ''''
               \<and> (0 < i \<longrightarrow> PreviousHash (chain ! i) = Hash (chain ! (i - 1))))
      then chain else Chain (Blockchain p2p))"
proof -
  have "length (Chain (Blockchain p2p)) < length chain \<Longrightarrow> chain \<noteq> []" by auto
  then show ?thesis
    by (auto simp: SyncWithPeers_adopt_def rebuildContractsFromChain_def IsValidChain_iff)
qed

lemma SyncWithPeers_adopt_unchanged:
  assumes "\<not> (length (Chain (Blockchain p2p)) < length chain
               \<and> (\<forall>i<length chain. Hash (chain ! i) \<noteq> ''''
                     \<and> (0 < i \<longrightarrow> PreviousHash (chain ! i) = Hash (chain ! (i - 1)))))"
  shows "SyncWithPeers_adopt fmtV decode p2p chain = p2p"
  using assms by (auto simp: SyncWithPeers_adopt_def IsValidChain_iff)

lemma SyncWithPeers_loop_Chain:
  "Chain (Blockchain (SyncWithPeers_loop request fmtV decode ps p2p)) =
     foldl (\<lambda>local entry.
              if Active (snd entry) then
                (case request (snd entry) of
                   Inl err \<Rightarrow> local
                 | Inr chain \<Rightarrow>
                     if length local < length chain
                        \<and> (\<forall>i<length chain. Hash (chain ! i) \<noteq> ''''
                              \<and> (0 < i \<longrightarrow> PreviousHash (chain ! i) = Hash (chain ! (i - 1))))
                     then chain else local)
              else local)
           (Chain (Blockchain p2p)) ps"
proof (induction ps arbitrary: p2p)
  case Nil
  show ?case by simp
next
  case (Cons entry rest)
  obtain peerID peer where entry: "entry = (peerID, peer)" by (cases entry)
  show ?case
    unfolding entry SyncWithPeers_loop.simps Cons.IH foldl_Cons snd_conv
    by (simp add: SyncWithPeers_adopt_Chain split: sum.split)
qed

lemma SyncWithPeers_loop_unchanged:
  assumes "\<forall>entry\<in>set ps. \<forall>chain. Active (snd entry) \<and> request (snd entry) = Inr chain \<longrightarrow>
             \<not> (length (Chain (Blockchain p2p)) < length chain
                 \<and> (\<forall>i<length chain. Hash (chain ! i) \<noteq> ''''
                       \<and> (0 < i \<longrightarrow> PreviousHash (chain ! i) = Hash (chain ! (i - 1)))))"
  shows "SyncWithPeers_loop request fmtV decode ps p2p = p2p"
  using assms
proof (induction ps)
  case Nil
  show ?case by simp
next
  case (Cons entry rest)
  obtain peerID peer where entry: "entry = (peerID, peer)" by (cases entry)
  have here: "(if \<not> Active peer then p2p
               else case request peer of
                      Inl err \<Rightarrow> p2p
                    | Inr chain \<Rightarrow> SyncWithPeers_adopt fmtV decode p2p chain) = p2p"
  proof (cases "Active peer")
    case False
    then show ?thesis by simp
  next
    case True
    show ?thesis
    proof (cases "request peer")
      case (Inl err)
      then show ?thesis by simp
    next
      case (Inr chain)
      have "\<not> (length (Chain (Blockchain p2p)) < length chain
                 \<and> (\<forall>i<length chain. Hash (chain ! i) \<noteq> ''''
                       \<and> (0 < i \<longrightarrow> PreviousHash (chain ! i) = Hash (chain ! (i - 1)))))"
        using Cons.prems True Inr entry by simp
      then show ?thesis using Inr by (simp add: SyncWithPeers_adopt_unchanged)
    qed
  qed
  have rest: "SyncWithPeers_loop request fmtV decode rest p2p = p2p"
    using Cons.IH Cons.prems by simp
  show ?case unfolding entry SyncWithPeers_loop.simps here by (rule rest)
qed

section \<open>Chain validity and synchronisation\<close>

text \<open>
  Claim C4, as stated, fails: \<open>IsChainValid\<close> never recomputes the hash of the block at
  index 0. On \<open>tamperedLedger\<close> the payload of the genesis block was rewritten and its stored
  hash no longer matches, yet the check returns true.
\<close>

theorem IsChainValid_accepts_tampered_genesis:
  "IsChainValid exampleDigest tamperedLedger
   \<and> \<not> IsValid exampleDigest (Chain tamperedLedger ! 0)"
proof -
  have chain: "Chain tamperedLedger =
      [(Chain peerLedger ! 0)\<lparr>Data := [(''message'', JString ''forged'')]\<rparr>, Chain peerLedger ! 1]"
    by (simp add: tamperedLedger_def peerLedger_Chain)
  have "\<forall>j. 1 \<le> j \<and> j < length (Chain tamperedLedger) \<longrightarrow>
          IsValid exampleDigest (Chain tamperedLedger ! j)
          \<and> PreviousHash (Chain tamperedLedger ! j) = Hash (Chain tamperedLedger ! (j - 1))"
  proof (intro allI impI)
    fix j assume "1 \<le> j \<and> j < length (Chain tamperedLedger)"
    then have "j = 1" by (simp add: chain)
    then show "IsValid exampleDigest (Chain tamperedLedger ! j)
          \<and> PreviousHash (Chain tamperedLedger ! j) = Hash (Chain tamperedLedger ! (j - 1))"
      using peerLedger_block1 by (simp add: chain)
  qed
  then have "IsChainValid exampleDigest tamperedLedger"
    by (simp add: IsChainValid_def IsChainValid_loop_iff)
  moreover have "\<not> IsValid exampleDigest (Chain tamperedLedger ! 0)"
    by (simp add: chain peerLedger_Chain IsValid_def genesisBlock_Hash eval_digest)
  ultimately show ?thesis by simp
qed

text \<open>
  Claim C4, amended: \<open>IsChainValid\<close> returns true if and only if every block after the first
  has a stored hash equal to its recomputation and a \<open>PreviousHash\<close> equal to the stored hash of
  the block before it; the first block is only read for its stored hash. Hence a block after
  the first whose stored hash no longer matches makes the result false, and so does taking
  out a block that is neither the first nor the last of a valid chain, when its hash differs
  from the hash of the block before it.
\<close>

theorem IsChainValid_checks_after_genesis:
  "(IsChainValid H bc \<longleftrightarrow>
      (\<forall>i. 1 \<le> i \<and> i < length (Chain bc) \<longrightarrow>
         IsValid H (Chain bc ! i) \<and> PreviousHash (Chain bc ! i) = Hash (Chain bc ! (i - 1))))
   \<and> (\<forall>i. 1 \<le> i \<and> i < length (Chain bc) \<and> \<not> IsValid H (Chain bc ! i)
          \<longrightarrow> \<not> IsChainValid H bc)
   \<and> (\<forall>i. 1 \<le> i \<and> i + 1 < length (Chain bc) \<and> IsChainValid H bc
          \<and> Hash (Chain bc ! i) \<noteq> Hash (Chain bc ! (i - 1))
          \<longrightarrow> \<not> IsChainValid H (bc\<lparr>Chain := take i (Chain bc) @ drop (i + 1) (Chain bc)\<rparr>))"
proof -
  have iff: "\<And>b. IsChainValid H b \<longleftrightarrow>
      (\<forall>i. 1 \<le> i \<and> i < length (Chain b) \<longrightarrow>
         IsValid H (Chain b ! i) \<and> PreviousHash (Chain b ! i) = Hash (Chain b ! (i - 1)))"
    by (simp add: IsChainValid_def IsChainValid_loop_iff)
  have cut: "\<not> IsChainValid H (bc\<lparr>Chain := take i (Chain bc) @ drop (i + 1) (Chain bc)\<rparr>)"
    if i: "1 \<le> i" "i + 1 < length (Chain bc)" and valid: "IsChainValid H bc"
      and diff: "Hash (Chain bc ! i) \<noteq> Hash (Chain bc ! (i - 1))" for i
  proof
    let ?ch = "Chain bc"
    let ?cut = "take i ?ch @ drop (i + 1) ?ch"
    assume "IsChainValid H (bc\<lparr>Chain := ?cut\<rparr>)"
    moreover have "i < length ?cut" using i by simp
    ultimately have "PreviousHash (?cut ! i) = Hash (?cut ! (i - 1))"
      using i(1) iff [of "bc\<lparr>Chain := ?cut\<rparr>"] by simp
    moreover have "?cut ! i = ?ch ! (i + 1)"
      using i by (simp add: nth_append)
    moreover have "?cut ! (i - 1) = ?ch ! (i - 1)"
      using i by (simp add: nth_append)
    moreover have "PreviousHash (?ch ! (i + 1)) = Hash (?ch ! i)"
      using valid i iff [of bc] by force
    ultimately show False using diff by simp
  qed
  show ?thesis using iff [of bc] cut by blast
qed

theorem IsChainValid_checks_after_genesis_witness:
  "IsChainValid exampleDigest peerLedger2
   \<and> \<not> IsChainValid exampleDigest tamperedLedger2
   \<and> \<not> IsChainValid exampleDigest
         (peerLedger2\<lparr>Chain := take 1 (Chain peerLedger2) @ drop (1 + 1) (Chain peerLedger2)\<rparr>)"
proof -
  note rule = IsChainValid_checks_after_genesis
  have valid: "IsChainValid exampleDigest peerLedger2"
    using rule [of exampleDigest peerLedger2] peerLedger2_links by blast
  have len2: "length (Chain tamperedLedger2) = 3"
    by (simp add: tamperedLedger2_def peerLedger2_length)
  have "\<not> IsChainValid exampleDigest tamperedLedger2"
    using rule [of exampleDigest tamperedLedger2] tamperedLedger2_block1 len2
    by (metis (no_types) le_refl one_less_numeral_iff semiring_norm(77))
  moreover have "\<not> IsChainValid exampleDigest
         (peerLedger2\<lparr>Chain := take 1 (Chain peerLedger2) @ drop (1 + 1) (Chain peerLedger2)\<rparr>)"
  proof -
    have "(1::nat) \<le> 1 \<and> 1 + 1 < length (Chain peerLedger2) \<and> IsChainValid exampleDigest peerLedger2
          \<and> Hash (Chain peerLedger2 ! 1) \<noteq> Hash (Chain peerLedger2 ! (1 - 1))"
      using valid peerLedger2_hashes_differ by (simp add: peerLedger2_length)
    then show ?thesis using rule [of exampleDigest peerLedger2] by blast
  qed
  ultimately show ?thesis using valid by simp
qed




text \<open>
  Claim C5: when a chain is adopted, \<open>rebuildContractsFromChain\<close> empties the registry and
  then decodes \<^verbatim>\<open>fmt.Sprintf("%v", block.Data)\<close>, a text that starts with \<^verbatim>\<open>map[\<close> and is never
  JSON, so no contract is ever put back: the registry is empty after every adoption, whatever
  blocks of type \<^verbatim>\<open>CONTRACT_CREATION\<close> the chain holds.
\<close>

theorem adoption_empties_registry:
  assumes "length (Chain (Blockchain p2p)) < length chain" and "IsValidChain chain"
  shows "Chain (Blockchain (SyncWithPeers_adopt fmtV decode p2p chain)) = chain
         \<and> Contracts (Blockchain (SyncWithPeers_adopt fmtV decode p2p chain)) = Map.empty"
  using assms
  by (simp add: SyncWithPeers_adopt_def rebuildContractsFromChain_def rebuildContracts_loop_unchanged)

theorem adoption_empties_registry_witness:
  "Type (Chain peerLedger ! 1) = ''CONTRACT_CREATION''
   \<and> Contracts peerLedger ''c-1'' \<noteq> None
   \<and> Chain (Blockchain (SyncWithPeers_adopt exampleText exampleDecode exampleNode (Chain peerLedger)))
       = Chain peerLedger
   \<and> Contracts (Blockchain (SyncWithPeers_adopt exampleText exampleDecode exampleNode (Chain peerLedger)))
       = Map.empty"
proof -
  have len: "length (Chain (Blockchain exampleNode)) < length (Chain peerLedger)"
    by (simp add: exampleNode_def peerLedger_length)
  have "\<forall>i<length (Chain peerLedger). Hash (Chain peerLedger ! i) \<noteq> ''''
       \<and> (0 < i \<longrightarrow> PreviousHash (Chain peerLedger ! i) = Hash (Chain peerLedger ! (i - 1)))"
  proof (intro allI impI)
    fix i assume "i < length (Chain peerLedger)"
    then have "i = 0 \<or> i = 1" using peerLedger_length by auto
    then show "Hash (Chain peerLedger ! i) \<noteq> ''''
       \<and> (0 < i \<longrightarrow> PreviousHash (Chain peerLedger ! i) = Hash (Chain peerLedger ! (i - 1)))"
      using peerLedger_block0 peerLedger_block1 by auto
  qed
  then have valid: "IsValidChain (Chain peerLedger)"
    using peerLedger_length by (auto simp: IsValidChain_iff)
  show ?thesis
    using adoption_empties_registry [OF len valid, of exampleText exampleDecode]
      peerLedger_block1(4) peerLedger_contract
    by simp
qed

section \<open>The hash of a new block\<close>



section \<open>The workflow: sequencing errors and audit observations\<close>

text \<open>
  Claim C8: when \<open>ValidateStep\<close> is called on a known contract with a step number that is not
  the contract's current step, it returns the step-mismatch error, and when the step number is
  the current step (within the steps of the contract) but the role is not the role of that
  step, it returns the role-mismatch error; whenever it returns one of these two errors the
  ledger is returned as it was: contract, registry and chain.
\<close>

theorem ValidateStep_sequencing_error_no_mutation:
  assumes "Contracts bc cid = Some c"
  shows "(stepNumber \<noteq> Contract.CurrentStep c \<longrightarrow>
            ValidateStep H bc cid stepNumber vid vname role approved comments clk ids
              = (Some (StepMismatch (Contract.CurrentStep c) stepNumber), bc))
       \<and> (stepNumber = Contract.CurrentStep c \<and> 1 \<le> stepNumber
            \<and> stepNumber \<le> int (length (ValidationSteps c))
            \<and> ValidationStep.Role (ValidationSteps c ! nat (stepNumber - 1)) \<noteq> role \<longrightarrow>
            ValidateStep H bc cid stepNumber vid vname role approved comments clk ids
              = (Some (RoleMismatch (ValidationStep.Role (ValidationSteps c ! nat (stepNumber - 1)))
                         role), bc))
       \<and> (\<forall>e bc'. ValidateStep H bc cid stepNumber vid vname role approved comments clk ids
                      = (Some e, bc')
                   \<and> ((\<exists>cur req. e = StepMismatch cur req) \<or> (\<exists>want got. e = RoleMismatch want got))
                   \<longrightarrow> bc' = bc)"
proof -
  have mismatch: "ValidateStep H bc cid stepNumber vid vname role approved comments clk ids
              = (Some (StepMismatch (Contract.CurrentStep c) stepNumber), bc)"
    if "stepNumber \<noteq> Contract.CurrentStep c"
    using that assms by (simp add: ValidateStep_def)
  have role: "ValidateStep H bc cid stepNumber vid vname role approved comments clk ids
              = (Some (RoleMismatch (ValidationStep.Role (ValidationSteps c ! nat (stepNumber - 1)))
                         role), bc)"
    if "stepNumber = Contract.CurrentStep c \<and> 1 \<le> stepNumber
            \<and> stepNumber \<le> int (length (ValidationSteps c))
            \<and> ValidationStep.Role (ValidationSteps c ! nat (stepNumber - 1)) \<noteq> role"
    using that assms by (auto simp: ValidateStep_def)
  have frame: "bc' = bc"
    if r: "ValidateStep H bc cid stepNumber vid vname role approved comments clk ids = (Some e, bc')"
      and e: "(\<exists>cur req. e = StepMismatch cur req) \<or> (\<exists>want got. e = RoleMismatch want got)"
    for e bc'
  proof (cases "stepNumber = Contract.CurrentStep c \<and> 1 \<le> stepNumber
            \<and> stepNumber \<le> int (length (ValidationSteps c))
            \<and> ValidationStep.Role (ValidationSteps c ! nat (stepNumber - 1)) = role")
    case True
    let ?U = "ValidateStep_update c stepNumber vid vname role approved comments clk ids"
    let ?bc = "bc\<lparr>Contracts := (Contracts bc)(cid \<mapsto> fst ?U)\<rparr>"
    let ?d = "ValidateStep_blockData cid stepNumber vid role approved comments (clk (snd ?U))"
    have t: "stepNumber = Contract.CurrentStep c" "1 \<le> stepNumber"
      "stepNumber \<le> int (length (ValidationSteps c))"
      "ValidationStep.Role (ValidationSteps c ! nat (stepNumber - 1)) = role"
      using True by blast+
    have "ValidateStep H bc cid stepNumber vid vname role approved comments clk ids
            = AddBlock H ?bc ?d (clk (snd ?U + 1))"
      by (rule ValidateStep_pass [OF assms t])
    moreover have "fst (AddBlock H ?bc ?d (clk (snd ?U + 1)))
                     \<in> {None, Some InvalidBlock, Some RuntimePanic}"
      using AddBlock_cases [of H ?bc ?d "clk (snd ?U + 1)"] by auto
    ultimately have "Some e \<in> {None, Some InvalidBlock, Some RuntimePanic}"
      using r by (metis fst_conv)
    then show ?thesis using e by auto
  next
    case False
    then have "snd (ValidateStep H bc cid stepNumber vid vname role approved comments clk ids) = bc"
      using assms by (auto simp: ValidateStep_def)
    then show ?thesis using r by simp
  qed
  show ?thesis using mismatch role frame by blast
qed

theorem ValidateStep_sequencing_error_no_mutation_witness:
  "ValidateStep exampleDigest peerLedger ''c-1'' 3 ''legal-1'' ''Legal'' RoleLegalCommission True
      ''early'' exampleClock exampleIds
     = (Some (StepMismatch 1 3), peerLedger)
   \<and> ValidateStep exampleDigest peerLedger ''c-1'' 1 ''legal-1'' ''Legal'' RoleLegalCommission True
      ''wrong role'' exampleClock exampleIds
     = (Some (RoleMismatch RoleProjectDeveloper RoleLegalCommission), peerLedger)"
proof -
  let ?c = "snd (AddContract_init exampleContract exampleClock exampleIds)"
  have cur: "Contract.CurrentStep ?c = 1" by (simp add: AddContract_init_fields)
  have len: "int (length (ValidationSteps ?c)) = 6"
    by (simp add: AddContract_init_fields GetWorkflowSteps_def)
  have r: "ValidationStep.Role (ValidationSteps ?c ! nat (1 - 1)) = RoleProjectDeveloper"
    by (simp add: AddContract_init_fields GetWorkflowSteps_def)
  have ne: "RoleProjectDeveloper \<noteq> RoleLegalCommission"
    by (simp add: RoleProjectDeveloper_def RoleLegalCommission_def)
  have "ValidateStep exampleDigest peerLedger ''c-1'' 3 ''legal-1'' ''Legal'' RoleLegalCommission True
      ''early'' exampleClock exampleIds
     = (Some (StepMismatch 1 3), peerLedger)"
    using ValidateStep_sequencing_error_no_mutation
            [OF peerLedger_contract, of 3 exampleDigest "''legal-1''" "''Legal''" RoleLegalCommission
               True "''early''" exampleClock exampleIds]
          cur by simp
  moreover have "ValidateStep exampleDigest peerLedger ''c-1'' 1 ''legal-1'' ''Legal''
      RoleLegalCommission True ''wrong role'' exampleClock exampleIds
     = (Some (RoleMismatch RoleProjectDeveloper RoleLegalCommission), peerLedger)"
    using ValidateStep_sequencing_error_no_mutation
            [OF peerLedger_contract, of 1 exampleDigest "''legal-1''" "''Legal''" RoleLegalCommission
               True "''wrong role''" exampleClock exampleIds]
          cur len r ne by simp
  ultimately show ?thesis by simp
qed

text \<open>
  Claim C9: on a known contract, \<open>AddAuditObservation\<close> returns the unauthorized-role error,
  and the ledger as it was, unless the role is Comptroller, Prosecutor or Citizen. When it
  returns no error, the role is one of the three, the contract is the old one with exactly one
  audit entry \<^verbatim>\<open>AUDIT_OBSERVATION\<close> added at the end (status, current step and validation steps
  are the old ones), every other contract is untouched, and the chain has exactly one more
  block, of type \<^verbatim>\<open>AUDIT_OBSERVATION\<close>. With one of the three roles it does return no error
  when the chain is not empty, the digest is never the empty string and the clock is not at
  Go's zero time.
\<close>

theorem AddAuditObservation_frame:
  assumes "Contracts bc cid = Some c"
  shows "(role \<notin> {RoleComptroller, RoleProsecutor, RoleCitizen} \<longrightarrow>
            AddAuditObservation H bc cid auditor role observation clk ids
              = (Some UnauthorizedRole, bc))
       \<and> (fst (AddAuditObservation H bc cid auditor role observation clk ids) = None \<longrightarrow>
            role \<in> {RoleComptroller, RoleProsecutor, RoleCitizen}
            \<and> (\<exists>entry block.
                  Action entry = ''AUDIT_OBSERVATION'' \<and> UserRole entry = role
                  \<and> Type block = ''AUDIT_OBSERVATION''
                  \<and> snd (AddAuditObservation H bc cid auditor role observation clk ids)
                      = bc\<lparr>Contracts := (Contracts bc)(cid \<mapsto> c\<lparr>AuditTrail := AuditTrail c @ [entry]\<rparr>),
                           Chain := Chain bc @ [block]\<rparr>))
       \<and> (role \<in> {RoleComptroller, RoleProsecutor, RoleCitizen} \<and> Chain bc \<noteq> []
            \<and> (\<forall>v. H v \<noteq> '''') \<and> \<not> IsZero (clk 2) \<longrightarrow>
            fst (AddAuditObservation H bc cid auditor role observation clk ids) = None)"
proof -
  let ?entry = "\<lparr>AuditEntry.ID = ids 0, Action = ''AUDIT_OBSERVATION'', UserID = auditor,
                  UserRole = role, AuditEntry.Timestamp = clk 0,
                  AuditEntry.Description = observation, IPAddress = ''''\<rparr>"
  let ?c = "c\<lparr>AuditTrail := AuditTrail c @ [?entry]\<rparr>"
  let ?bc = "bc\<lparr>Contracts := (Contracts bc)(cid \<mapsto> ?c)\<rparr>"
  let ?d = "AddAuditObservation_blockData cid auditor role observation (clk 1)"
  let ?block = "AddBlock_block H (Chain bc) ?d (clk 2)"
  have refused: "AddAuditObservation H bc cid auditor role observation clk ids
                   = (Some UnauthorizedRole, bc)"
    if "role \<notin> {RoleComptroller, RoleProsecutor, RoleCitizen}"
    using that assms by (simp add: AddAuditObservation_def)
  have allowed: "AddAuditObservation H bc cid auditor role observation clk ids
                   = AddBlock H ?bc ?d (clk 2)"
    if "role \<in> {RoleComptroller, RoleProsecutor, RoleCitizen}"
    using that assms by (auto simp: AddAuditObservation_def Let_def addAuditEntry_def)
  have ty: "Type ?block = ''AUDIT_OBSERVATION''"
    by (simp add: AddBlock_block_Type AddAuditObservation_blockData_def)
  have success: "role \<in> {RoleComptroller, RoleProsecutor, RoleCitizen}
            \<and> (\<exists>entry block.
                  Action entry = ''AUDIT_OBSERVATION'' \<and> UserRole entry = role
                  \<and> Type block = ''AUDIT_OBSERVATION''
                  \<and> snd (AddAuditObservation H bc cid auditor role observation clk ids)
                      = bc\<lparr>Contracts := (Contracts bc)(cid \<mapsto> c\<lparr>AuditTrail := AuditTrail c @ [entry]\<rparr>),
                           Chain := Chain bc @ [block]\<rparr>)"
    if ok: "fst (AddAuditObservation H bc cid auditor role observation clk ids) = None"
  proof -
    have in3: "role \<in> {RoleComptroller, RoleProsecutor, RoleCitizen}"
      using ok refused by fastforce
    have "fst (AddBlock H ?bc ?d (clk 2)) = None" using ok allowed [OF in3] by simp
    then have "AddBlock H ?bc ?d (clk 2) = (None, ?bc\<lparr>Chain := Chain ?bc @ [?block]\<rparr>)"
      using AddBlock_cases [of H ?bc ?d "clk 2"] by auto
    then have "snd (AddAuditObservation H bc cid auditor role observation clk ids)
                 = bc\<lparr>Contracts := (Contracts bc)(cid \<mapsto> c\<lparr>AuditTrail := AuditTrail c @ [?entry]\<rparr>),
                      Chain := Chain bc @ [?block]\<rparr>"
      using allowed [OF in3] by simp
    moreover have "Action ?entry = ''AUDIT_OBSERVATION'' \<and> UserRole ?entry = role" by simp
    ultimately show ?thesis using in3 ty by blast
  qed
  have possible: "fst (AddAuditObservation H bc cid auditor role observation clk ids) = None"
    if "role \<in> {RoleComptroller, RoleProsecutor, RoleCitizen} \<and> Chain bc \<noteq> []
            \<and> (\<forall>v. H v \<noteq> '''') \<and> \<not> IsZero (clk 2)"
  proof -
    have "AddBlock H ?bc ?d (clk 2) = (None, ?bc\<lparr>Chain := Chain ?bc @ [?block]\<rparr>)"
      using that AddBlock_ok [of ?bc H "clk 2" ?d] by simp
    then show ?thesis using that allowed by simp
  qed
  show ?thesis using refused success possible by blast
qed

theorem AddAuditObservation_frame_witness:
  "AddAuditObservation exampleDigest peerLedger ''c-1'' ''dev-1'' RoleProjectDeveloper ''note''
      exampleClock exampleIds
     = (Some UnauthorizedRole, peerLedger)
   \<and> fst (AddAuditObservation exampleDigest peerLedger ''c-1'' ''citizen-7'' RoleCitizen ''note''
            exampleClock exampleIds) = None
   \<and> (\<exists>entry block.
         Action entry = ''AUDIT_OBSERVATION'' \<and> UserRole entry = RoleCitizen
         \<and> Type block = ''AUDIT_OBSERVATION''
         \<and> snd (AddAuditObservation exampleDigest peerLedger ''c-1'' ''citizen-7'' RoleCitizen ''note''
                   exampleClock exampleIds)
             = peerLedger
                 \<lparr>Contracts := (Contracts peerLedger)(''c-1'' \<mapsto>
                     (snd (AddContract_init exampleContract exampleClock exampleIds))
                       \<lparr>AuditTrail :=
                          AuditTrail (snd (AddContract_init exampleContract exampleClock exampleIds))
                            @ [entry]\<rparr>),
                  Chain := Chain peerLedger @ [block]\<rparr>)"
proof -
  have dev: "RoleProjectDeveloper \<notin> {RoleComptroller, RoleProsecutor, RoleCitizen}"
    by (simp add: RoleProjectDeveloper_def RoleComptroller_def RoleProsecutor_def RoleCitizen_def)
  have cit: "RoleCitizen \<in> {RoleComptroller, RoleProsecutor, RoleCitizen} \<and> Chain peerLedger \<noteq> []
            \<and> (\<forall>v. exampleDigest v \<noteq> '''') \<and> \<not> IsZero (exampleClock 2)"
    by (simp add: peerLedger_Chain exampleDigest_nonempty exampleClock_nonzero)
  note refuse = AddAuditObservation_frame
            [OF peerLedger_contract, of RoleProjectDeveloper exampleDigest "''dev-1''" "''note''"
               exampleClock exampleIds]
  note accept = AddAuditObservation_frame
            [OF peerLedger_contract, of RoleCitizen exampleDigest "''citizen-7''" "''note''"
               exampleClock exampleIds]
  have "AddAuditObservation exampleDigest peerLedger ''c-1'' ''dev-1'' RoleProjectDeveloper ''note''
      exampleClock exampleIds = (Some UnauthorizedRole, peerLedger)"
    using refuse dev by blast
  moreover have ok: "fst (AddAuditObservation exampleDigest peerLedger ''c-1'' ''citizen-7''
                       RoleCitizen ''note'' exampleClock exampleIds) = None"
    using accept cit by blast
  ultimately show ?thesis using accept ok by blast
qed

section \<open>The full approval path\<close>

text \<open>
  Claim C6, as stated, fails for the last approval: it appends the audit entry
  \<^verbatim>\<open>STEP_APPROVED\<close> and then the audit entry \<^verbatim>\<open>WORKFLOW_COMPLETED\<close>. On the first ledger, whose
  contract has one audit entry from its creation, the trail has 6 entries after five approvals
  and 8 after the sixth.
\<close>

theorem sixth_approval_appends_two_audit_entries:
  "fst (ValidateStep exampleDigest (exampleRun 5) ''c-1'' 6 (exampleIds 5) (exampleIds 5)
          RoleBudgetAuthority True (exampleIds 5) exampleClock exampleIds) = None
   \<and> map_option (\<lambda>c. length (AuditTrail c)) (Contracts (exampleRun 5) ''c-1'') = Some 6
   \<and> map_option (\<lambda>c. length (AuditTrail c)) (Contracts (exampleRun 6) ''c-1'') = Some 8"
proof -
  have role: "WorkflowStep.Role (GetWorkflowSteps ! 5) = RoleBudgetAuthority"
    by (simp add: GetWorkflowSteps_def)
  have five: "map_option (\<lambda>c. length (AuditTrail c)) (Contracts (exampleRun 5) ''c-1'') = Some 6"
    using exampleRun_audit_length [of 5] by simp
  have five_lt: "(5::nat) < 6" by simp
  have "fst (ValidateStep exampleDigest (exampleRun 5) ''c-1'' 6 (exampleIds 5) (exampleIds 5)
          RoleBudgetAuthority True (exampleIds 5) exampleClock exampleIds) = None
        \<and> map_option (\<lambda>c. length (AuditTrail c)) (Contracts (exampleRun 6) ''c-1'')
            = map_option (\<lambda>c. length (AuditTrail c) + 2) (Contracts (exampleRun 5) ''c-1'')"
    using exampleRun_step [OF five_lt] role by simp
  then show ?thesis using five by simp
qed

text \<open>
  Claim C6, amended: for every freshly created contract (the ledger that \<open>AddContract\<close>
  returned without error), when the digest is never the empty string and the clock never at
  Go's zero time, approving the steps 1 to 6 in order, each with the role the template fixes
  for it, succeeds at every step; the status is Draft at the start and TechnicalReview,
  LegalReview, ContractsReview, AdminReview, BudgetReview, AuthorizedForPublication after the
  approvals 1 to 6; every approval appends exactly one block, of type \<^verbatim>\<open>VALIDATION\<close>, at the end
  of the chain; each of the approvals 1 to 5 appends exactly one audit entry, \<^verbatim>\<open>STEP_APPROVED\<close>,
  at the end of the contract's audit trail, and the sixth appends two, \<^verbatim>\<open>STEP_APPROVED\<close> and
  then \<^verbatim>\<open>WORKFLOW_COMPLETED\<close>; and the status read then reports 6 completed steps.
\<close>

theorem full_approval_path:
  assumes "AddContract H bc contract clk ids = (None, bc0)"
    and "cid = (if Contract.ID contract = '''' then ids 0 else Contract.ID contract)"
    and "\<forall>v. H v \<noteq> ''''" and "\<forall>j n. \<not> IsZero (clks j n)"
  shows "map_option Contract.Status (Contracts bc0 cid) = Some StatusDraft
    \<and> (\<forall>k<6. \<exists>c c'.
          Contracts (approveThrough H bc0 cid vids vnames comments clks idss k) cid = Some c
          \<and> fst (ValidateStep H (approveThrough H bc0 cid vids vnames comments clks idss k) cid
                   (int (Suc k)) (vids k) (vnames k) (WorkflowStep.Role (GetWorkflowSteps ! k)) True
                   (comments k) (clks k) (idss k)) = None
          \<and> Contracts (approveThrough H bc0 cid vids vnames comments clks idss (Suc k)) cid = Some c'
          \<and> Contract.Status c' = statusAfterApproval ! k
          \<and> AuditTrail c' = AuditTrail c @
                (if k = 5
                 then [approvalEntry (int (Suc k)) (vids k) (WorkflowStep.Role (GetWorkflowSteps ! k))
                         (comments k) (idss k 0) (clks k 1),
                       completionEntry (vids k) (WorkflowStep.Role (GetWorkflowSteps ! k))
                         (idss k 1) (clks k 2)]
                 else [approvalEntry (int (Suc k)) (vids k) (WorkflowStep.Role (GetWorkflowSteps ! k))
                         (comments k) (idss k 0) (clks k 1)])
          \<and> Chain (approveThrough H bc0 cid vids vnames comments clks idss (Suc k))
              = Chain (approveThrough H bc0 cid vids vnames comments clks idss k) @
                  [AddBlock_block H (Chain (approveThrough H bc0 cid vids vnames comments clks idss k))
                     (ValidateStep_blockData cid (int (Suc k)) (vids k)
                        (WorkflowStep.Role (GetWorkflowSteps ! k)) True (comments k)
                        (clks k (if k = 5 then 4 else 3)))
                     (clks k (if k = 5 then 5 else 4))]
          \<and> Type (last (Chain (approveThrough H bc0 cid vids vnames comments clks idss (Suc k))))
              = ''VALIDATION'')
    \<and> Action (approvalEntry stepNumber validatorID role msg uid now) = ''STEP_APPROVED''
    \<and> Action (completionEntry validatorID role uid now) = ''WORKFLOW_COMPLETED''
    \<and> (\<exists>ws. GetContractWorkflowStatus
                (approveThrough H bc0 cid vids vnames comments clks idss 6) cid = Inr ws
              \<and> CompletedSteps ws = 6)"
proof -
  note start = approvedUpTo_fresh [OF assms(1,2)]
  have read: "\<exists>ws. GetContractWorkflowStatus
                (approveThrough H bc0 cid vids vnames comments clks idss 6) cid = Inr ws
              \<and> CompletedSteps ws = 6"
    using approveThrough_status_read [OF start(1) assms(3,4), of vids vnames comments idss]
    by blast
  have tags: "Action (approvalEntry stepNumber validatorID role msg uid now) = ''STEP_APPROVED''"
    "Action (completionEntry validatorID role uid now) = ''WORKFLOW_COMPLETED''"
    by (simp_all add: approvalEntry_def completionEntry_def)
  note step = approveThrough_step_exact [OF start(1) assms(3,4), of _ vids vnames comments idss]
  show ?thesis
  proof (intro conjI allI impI)
    show "map_option Contract.Status (Contracts bc0 cid) = Some StatusDraft" by (rule start(2))
  next
    fix k :: nat assume "k < 6"
    then show "\<exists>c c'.
          Contracts (approveThrough H bc0 cid vids vnames comments clks idss k) cid = Some c
          \<and> fst (ValidateStep H (approveThrough H bc0 cid vids vnames comments clks idss k) cid
                   (int (Suc k)) (vids k) (vnames k) (WorkflowStep.Role (GetWorkflowSteps ! k)) True
                   (comments k) (clks k) (idss k)) = None
          \<and> Contracts (approveThrough H bc0 cid vids vnames comments clks idss (Suc k)) cid = Some c'
          \<and> Contract.Status c' = statusAfterApproval ! k
          \<and> AuditTrail c' = AuditTrail c @
                (if k = 5
                 then [approvalEntry (int (Suc k)) (vids k) (WorkflowStep.Role (GetWorkflowSteps ! k))
                         (comments k) (idss k 0) (clks k 1),
                       completionEntry (vids k) (WorkflowStep.Role (GetWorkflowSteps ! k))
                         (idss k 1) (clks k 2)]
                 else [approvalEntry (int (Suc k)) (vids k) (WorkflowStep.Role (GetWorkflowSteps ! k))
                         (comments k) (idss k 0) (clks k 1)])
          \<and> Chain (approveThrough H bc0 cid vids vnames comments clks idss (Suc k))
              = Chain (approveThrough H bc0 cid vids vnames comments clks idss k) @
                  [AddBlock_block H (Chain (approveThrough H bc0 cid vids vnames comments clks idss k))
                     (ValidateStep_blockData cid (int (Suc k)) (vids k)
                        (WorkflowStep.Role (GetWorkflowSteps ! k)) True (comments k)
                        (clks k (if k = 5 then 4 else 3)))
                     (clks k (if k = 5 then 5 else 4))]
          \<and> Type (last (Chain (approveThrough H bc0 cid vids vnames comments clks idss (Suc k))))
              = ''VALIDATION''"
      by (rule step)
  next
    show "Action (approvalEntry stepNumber validatorID role msg uid now) = ''STEP_APPROVED''"
      by (rule tags(1))
  next
    show "Action (completionEntry validatorID role uid now) = ''WORKFLOW_COMPLETED''"
      by (rule tags(2))
  next
    show "\<exists>ws. GetContractWorkflowStatus
                (approveThrough H bc0 cid vids vnames comments clks idss 6) cid = Inr ws
              \<and> CompletedSteps ws = 6"
      by (rule read)
  qed
qed

theorem full_approval_path_witness:
  "map_option Contract.Status (Contracts peerLedger ''c-1'') = Some StatusDraft
   \<and> (\<exists>c c'. Contracts (exampleRun 0) ''c-1'' = Some c
         \<and> Contracts (exampleRun (Suc 0)) ''c-1'' = Some c'
         \<and> Contract.Status c' = StatusTechnicalReview
         \<and> AuditTrail c' = AuditTrail c @
              [approvalEntry 1 (exampleIds 0) RoleProjectDeveloper (exampleIds 0)
                 (exampleIds 0) (exampleClock 1)])
   \<and> (\<exists>c c'. Contracts (exampleRun 5) ''c-1'' = Some c
         \<and> Contracts (exampleRun (Suc 5)) ''c-1'' = Some c'
         \<and> Contract.Status c' = StatusAuthorizedForPublication
         \<and> AuditTrail c' = AuditTrail c @
              [approvalEntry 6 (exampleIds 5) RoleBudgetAuthority (exampleIds 5)
                 (exampleIds 0) (exampleClock 1),
               completionEntry (exampleIds 5) RoleBudgetAuthority (exampleIds 1) (exampleClock 2)]
         \<and> length (Chain (exampleRun (Suc 5))) = length (Chain (exampleRun 5)) + 1)"
proof -
  have cid: "''c-1'' = (if Contract.ID exampleContract = '''' then exampleIds 0
                        else Contract.ID exampleContract)"
    by (simp add: exampleContract_def)
  have H: "\<forall>v. exampleDigest v \<noteq> ''''" by (simp add: exampleDigest_nonempty)
  have clks: "\<forall>j n. \<not> IsZero ((\<lambda>j. exampleClock) j n)" by (simp add: exampleClock_nonzero)
  note path = full_approval_path [OF peerLedger_fresh cid H clks,
                of exampleIds exampleIds exampleIds "\<lambda>j. exampleIds", folded exampleRun_def]
  have draft: "map_option Contract.Status (Contracts peerLedger ''c-1'') = Some StatusDraft"
    using path by (rule conjunct1)
  note steps = path [THEN conjunct2, THEN conjunct1, rule_format]
  have zero: "(0::nat) < 6" and five: "(5::nat) < 6" by simp_all
  have s0: "statusAfterApproval ! 0 = StatusTechnicalReview"
    and s5: "statusAfterApproval ! 5 = StatusAuthorizedForPublication"
    by (simp_all add: statusAfterApproval_def)
  have r0: "WorkflowStep.Role (GetWorkflowSteps ! 0) = RoleProjectDeveloper"
    and r5: "WorkflowStep.Role (GetWorkflowSteps ! 5) = RoleBudgetAuthority"
    by (simp_all add: GetWorkflowSteps_def)
  obtain a a' where first:
    "Contracts (exampleRun 0) ''c-1'' = Some a" "Contracts (exampleRun (Suc 0)) ''c-1'' = Some a'"
    "Contract.Status a' = StatusTechnicalReview"
    "AuditTrail a' = AuditTrail a @
              [approvalEntry 1 (exampleIds 0) RoleProjectDeveloper (exampleIds 0)
                 (exampleIds 0) (exampleClock 1)]"
    using steps [OF zero] s0 r0 by auto
  obtain b b' where last:
    "Contracts (exampleRun 5) ''c-1'' = Some b" "Contracts (exampleRun (Suc 5)) ''c-1'' = Some b'"
    "Contract.Status b' = StatusAuthorizedForPublication"
    "AuditTrail b' = AuditTrail b @
              [approvalEntry 6 (exampleIds 5) RoleBudgetAuthority (exampleIds 5)
                 (exampleIds 0) (exampleClock 1),
               completionEntry (exampleIds 5) RoleBudgetAuthority (exampleIds 1) (exampleClock 2)]"
    "length (Chain (exampleRun (Suc 5))) = length (Chain (exampleRun 5)) + 1"
    using steps [OF five] s5 r5 by auto
  show ?thesis using draft first last by blast
qed



section \<open>A rejected contract, and a block received twice\<close>

lemma rejectedLedger_eq:
  "rejectedLedger =
     peerLedger\<lparr>Contracts := (Contracts peerLedger)(''c-1'' \<mapsto>
                   fst (ValidateStep_update (snd (AddContract_init exampleContract exampleClock exampleIds))
                          1 ''dev-1'' ''Developer'' RoleProjectDeveloper False ''not ready''
                          exampleClock exampleIds)),
                 Chain := Chain peerLedger @
                   [AddBlock_block exampleDigest (Chain peerLedger)
                      (ValidateStep_blockData ''c-1'' 1 ''dev-1'' RoleProjectDeveloper False
                         ''not ready'' (exampleClock 3))
                      (exampleClock 4)]\<rparr>"
proof -
  let ?c = "snd (AddContract_init exampleContract exampleClock exampleIds)"
  have role: "ValidationStep.Role (ValidationSteps ?c ! nat (1 - 1)) = RoleProjectDeveloper"
    by (simp add: AddContract_init_fields GetWorkflowSteps_def)
  have len: "(1::int) \<le> int (length (ValidationSteps ?c))"
    by (simp add: AddContract_init_fields GetWorkflowSteps_def)
  have cur: "(1::int) = Contract.CurrentStep ?c"
    by (simp add: AddContract_init_fields)
  have n: "snd (ValidateStep_update ?c 1 ''dev-1'' ''Developer'' RoleProjectDeveloper False
                  ''not ready'' exampleClock exampleIds) = 3"
    by (simp add: ValidateStep_update_snd)
  have ne: "Chain peerLedger \<noteq> []" by (simp add: peerLedger_Chain)
  show ?thesis
    unfolding rejectedLedger_def
    by (simp add: ValidateStep_pass [OF peerLedger_contract cur _ len role] n AddBlock_ok ne
          exampleDigest_nonempty exampleClock_nonzero)
qed

text \<open>
  Claim C2: the code has no guard on the status. On a contract whose status is Rejected, a
  call of \<open>ValidateStep\<close> with the current step number and the role of that step is processed
  like any other: with \<open>approved\<close> true and a step that is not the last, it returns no error,
  marks the step approved, advances the current step, replaces the status Rejected by the
  status of the next step and appends an audit entry and a block.
\<close>

theorem rejected_contract_accepts_validateStep:
  assumes "Contracts bc cid = Some c" and "Contract.Status c = StatusRejected"
    and "stepNumber = Contract.CurrentStep c" and "1 \<le> stepNumber"
    and "stepNumber < int (length (ValidationSteps c))"
    and "ValidationStep.Role (ValidationSteps c ! nat (stepNumber - 1)) = role"
    and "Chain bc \<noteq> []" and "\<forall>v. H v \<noteq> ''''" and "\<forall>n. \<not> IsZero (clk n)"
  shows "\<exists>c' block.
           ValidateStep H bc cid stepNumber vid vname role True comments clk ids
             = (None, bc\<lparr>Contracts := (Contracts bc)(cid \<mapsto> c'), Chain := Chain bc @ [block]\<rparr>)
           \<and> Contract.Status c' = getStatusForStep (stepNumber + 1)
           \<and> Contract.CurrentStep c' = stepNumber + 1
           \<and> ValidationStep.Status (ValidationSteps c' ! nat (stepNumber - 1)) = ValidationApproved
           \<and> length (AuditTrail c') = length (AuditTrail c) + 1"
proof -
  let ?U = "ValidateStep_update c stepNumber vid vname role True comments clk ids"
  let ?bc = "bc\<lparr>Contracts := (Contracts bc)(cid \<mapsto> fst ?U)\<rparr>"
  let ?d = "ValidateStep_blockData cid stepNumber vid role True comments (clk (snd ?U))"
  let ?block = "AddBlock_block H (Chain bc) ?d (clk (snd ?U + 1))"
  have le: "stepNumber \<le> int (length (ValidationSteps c))" using assms(5) by simp
  have "ValidateStep H bc cid stepNumber vid vname role True comments clk ids
          = AddBlock H ?bc ?d (clk (snd ?U + 1))"
    by (rule ValidateStep_pass [OF assms(1,3,4) le assms(6)])
  also have "\<dots> = (None, ?bc\<lparr>Chain := Chain ?bc @ [?block]\<rparr>)"
    using AddBlock_ok [of ?bc H "clk (snd ?U + 1)" ?d] assms(7,8,9) by simp
  finally have run: "ValidateStep H bc cid stepNumber vid vname role True comments clk ids
          = (None, bc\<lparr>Contracts := (Contracts bc)(cid \<mapsto> fst ?U), Chain := Chain bc @ [?block]\<rparr>)"
    by simp
  note upd = ValidateStep_update_approved [OF assms(4), of c vid vname role comments clk ids]
  have idx: "nat (stepNumber - 1) < length (ValidationSteps c)" using assms(4,5) by simp
  have "Contract.Status (fst ?U) = getStatusForStep (stepNumber + 1)"
    using upd(3) assms(3,5) by simp
  moreover have "Contract.CurrentStep (fst ?U) = stepNumber + 1"
    using upd(2) assms(3,5) by simp
  moreover have "ValidationStep.Status (ValidationSteps (fst ?U) ! nat (stepNumber - 1))
                   = ValidationApproved"
    using upd(1) idx by simp
  moreover have "length (AuditTrail (fst ?U)) = length (AuditTrail c) + 1"
    using upd(4) assms(5) by simp
  ultimately show ?thesis using run by blast
qed

theorem rejected_contract_accepts_validateStep_witness:
  "map_option Contract.Status (Contracts rejectedLedger ''c-1'') = Some StatusRejected
   \<and> (\<exists>ws. GetContractWorkflowStatus rejectedLedger ''c-1'' = Inr ws \<and> \<not> CanAdvance ws)
   \<and> (\<exists>c' block.
         ValidateStep exampleDigest rejectedLedger ''c-1'' 1 ''dev-1'' ''Developer''
           RoleProjectDeveloper True ''again'' exampleClock exampleIds
           = (None, rejectedLedger\<lparr>Contracts := (Contracts rejectedLedger)(''c-1'' \<mapsto> c'),
                                   Chain := Chain rejectedLedger @ [block]\<rparr>)
         \<and> Contract.Status c' = StatusTechnicalReview
         \<and> Contract.CurrentStep c' = 2)"
proof -
  let ?c0 = "snd (AddContract_init exampleContract exampleClock exampleIds)"
  let ?c = "fst (ValidateStep_update ?c0 1 ''dev-1'' ''Developer'' RoleProjectDeveloper False
                   ''not ready'' exampleClock exampleIds)"
  have c: "Contracts rejectedLedger ''c-1'' = Some ?c" by (simp add: rejectedLedger_eq)
  have status: "Contract.Status ?c = StatusRejected"
    by (simp add: ValidateStep_update_rejected)
  have cur: "(1::int) = Contract.CurrentStep ?c"
    by (simp add: ValidateStep_update_rejected AddContract_init_fields)
  have roles: "map ValidationStep.Role (ValidationSteps ?c) = map WorkflowStep.Role GetWorkflowSteps"
    by (simp add: ValidateStep_update_rejected AddContract_init_fields)
  have len: "length (ValidationSteps ?c) = 6" using roles by (metis length_map template_length)
  have "map ValidationStep.Role (ValidationSteps ?c) ! 0 = map WorkflowStep.Role GetWorkflowSteps ! 0"
    using roles by simp
  then have role: "ValidationStep.Role (ValidationSteps ?c ! nat (1 - 1)) = RoleProjectDeveloper"
    using len by (simp add: GetWorkflowSteps_def)
  have one: "(1::int) \<le> 1" by simp
  have lt: "(1::int) < int (length (ValidationSteps ?c))" using len by simp
  have ne: "Chain rejectedLedger \<noteq> []" by (simp add: rejectedLedger_eq)
  have H: "\<forall>v. exampleDigest v \<noteq> ''''" by (simp add: exampleDigest_nonempty)
  have clk: "\<forall>n. \<not> IsZero (exampleClock n)" by (simp add: exampleClock_nonzero)
  have next_status: "getStatusForStep (1 + 1) = StatusTechnicalReview"
    by (simp add: getStatusForStep_def)
  have read: "\<exists>ws. GetContractWorkflowStatus rejectedLedger ''c-1'' = Inr ws \<and> \<not> CanAdvance ws"
    using c status cur len
    by (simp add: GetContractWorkflowStatus_def getNextRole_def Let_def)
  have "\<exists>c' block.
         ValidateStep exampleDigest rejectedLedger ''c-1'' 1 ''dev-1'' ''Developer''
           RoleProjectDeveloper True ''again'' exampleClock exampleIds
           = (None, rejectedLedger\<lparr>Contracts := (Contracts rejectedLedger)(''c-1'' \<mapsto> c'),
                                   Chain := Chain rejectedLedger @ [block]\<rparr>)
         \<and> Contract.Status c' = StatusTechnicalReview
         \<and> Contract.CurrentStep c' = 2"
    using rejected_contract_accepts_validateStep
            [OF c status cur one lt role ne H clk, of "''dev-1''" "''Developer''" "''again''"
               exampleIds]
          next_status
    by auto
  then show ?thesis using c status read by simp
qed

text \<open>
  Claim C3: \<open>ReceiveBlock\<close> does not append the block it is given but a new block that carries
  the received fields as its payload, with a hash of its own, and it tests \<open>IsValidBlock\<close>
  before \<open>HasBlock\<close>. After a first receipt that appended, the tail of the chain is that new
  block, so the same block no longer links to the tail: the second receipt returns the
  invalid-block error (and changes nothing), whenever the hash of the new tail differs from
  the previous hash the block names.
\<close>

theorem ReceiveBlock_again_is_refused:
  assumes "ReceiveBlock H p2p block now = (None, p2p')"
    and "\<not> HasBlock (Blockchain p2p) (Hash block)"
    and "Hash (last (Chain (Blockchain p2p'))) \<noteq> PreviousHash block"
  shows "length (Chain (Blockchain p2p')) = length (Chain (Blockchain p2p)) + 1
         \<and> Data (last (Chain (Blockchain p2p'))) = ReceiveBlock_blockData block
         \<and> Hash (last (Chain (Blockchain p2p'))) = calculateHash H (last (Chain (Blockchain p2p')))
         \<and> ReceiveBlock H p2p' block now' = (Some InvalidBlockReceived, p2p')"
proof -
  let ?bc = "Blockchain p2p"
  let ?d = "ReceiveBlock_blockData block"
  let ?new = "AddBlock_block H (Chain ?bc) ?d now"
  have valid: "IsValidBlock ?bc block"
    using assms(1) by (auto simp: ReceiveBlock_def split: if_splits)
  have "AddBlock H ?bc ?d now = (None, ?bc\<lparr>Chain := Chain ?bc @ [?new]\<rparr>)"
    using assms(1,2) valid AddBlock_cases [of H ?bc ?d now]
    by (auto simp: ReceiveBlock_def)
  then have p2p': "p2p' = p2p\<lparr>Blockchain := ?bc\<lparr>Chain := Chain ?bc @ [?new]\<rparr>\<rparr>"
    using assms(1,2) valid by (simp add: ReceiveBlock_def)
  have "\<not> IsValidBlock (Blockchain p2p') block"
    using assms(3) by (simp add: IsValidBlock_def p2p')
  then have "ReceiveBlock H p2p' block now' = (Some InvalidBlockReceived, p2p')"
    by (simp add: ReceiveBlock_def)
  then show ?thesis using AddBlock_block_Hash [of H "Chain ?bc" ?d now] by (simp add: p2p')
qed

theorem ReceiveBlock_again_is_refused_witness:
  "fst (ReceiveBlock exampleDigest syncedNode broadcastBlock (Time 1010 0)) = None
   \<and> length (Chain (Blockchain
        (snd (ReceiveBlock exampleDigest syncedNode broadcastBlock (Time 1010 0))))) = 2
   \<and> ReceiveBlock exampleDigest
        (snd (ReceiveBlock exampleDigest syncedNode broadcastBlock (Time 1010 0)))
        broadcastBlock (Time 1020 0)
      = (Some InvalidBlockReceived,
         snd (ReceiveBlock exampleDigest syncedNode broadcastBlock (Time 1010 0)))"
proof -
  let ?g = "genesisBlock exampleDigest (Time 900 0)"
  let ?bc = "NewBlockchain exampleDigest (Time 900 0)"
  let ?new = "AddBlock_block exampleDigest [?g] (ReceiveBlock_blockData broadcastBlock) (Time 1010 0)"
  let ?node = "syncedNode\<lparr>Blockchain := ?bc\<lparr>Chain := [?g, ?new]\<rparr>\<rparr>"
  have bc: "Blockchain syncedNode = ?bc" by (simp add: syncedNode_def)
  have prev: "PreviousHash broadcastBlock = Hash ?g"
    by (simp add: broadcastBlock_def peerLedger_Chain)
  have hash: "Hash broadcastBlock \<noteq> ''''"
    using peerLedger_block1(1) by (simp add: broadcastBlock_def)
  have time: "\<not> IsZero (Block.Timestamp broadcastBlock)"
    by (simp add: broadcastBlock_def peerLedger_Chain exampleClock_nonzero)
  have valid: "IsValidBlock ?bc broadcastBlock"
    using prev hash time by (simp add: IsValidBlock_def)
  have differ: "Hash broadcastBlock \<noteq> Hash ?g"
    using peerLedger_hashes_differ by (simp add: broadcastBlock_def peerLedger_Chain)
  then have unknown: "\<not> HasBlock (Blockchain syncedNode) (Hash broadcastBlock)"
    by (simp add: bc HasBlock_def)
  have zero: "\<not> IsZero (Time 1010 0)" by (simp add: IsZero_def zeroTime_def)
  have add: "AddBlock exampleDigest ?bc (ReceiveBlock_blockData broadcastBlock) (Time 1010 0)
               = (None, ?bc\<lparr>Chain := [?g, ?new]\<rparr>)"
    using AddBlock_ok [of ?bc exampleDigest "Time 1010 0" "ReceiveBlock_blockData broadcastBlock"]
      zero exampleDigest_nonempty by simp
  have first: "ReceiveBlock exampleDigest syncedNode broadcastBlock (Time 1010 0) = (None, ?node)"
    using valid unknown add by (simp add: ReceiveBlock_def bc)
  have tail: "Hash (last (Chain (Blockchain ?node))) \<noteq> PreviousHash broadcastBlock"
    by (simp add: prev AddBlock_block_Hash genesisBlock_Hash eval_digest AddBlock_block_Type
          ReceiveBlock_blockData_def broadcastBlock_def peerLedger_Chain)
  show ?thesis
    using ReceiveBlock_again_is_refused [OF first unknown tail, of "Time 1020 0"] first
    by simp
qed

end
